theory Spec2Isabelle
  imports Complex_Main
begin

section \<open>Python values used by the scripts\<close>

text \<open>
  A Python \<open>str\<close> is a sequence of Unicode code points, so it is modelled as a list of
  natural numbers; \<open>ustr\<close> embeds an ASCII literal. \<open>bytes\<close> are a list of numbers too.
\<close>

type_synonym pystr = "nat list"
type_synonym pybytes = "nat list"

definition ustr :: "string \<Rightarrow> pystr" where
  "ustr s = map of_char s"

text \<open>
  \<open>str.strip()\<close> without argument removes the leading and trailing code points for which
  \<open>str.isspace\<close> holds: the ASCII controls 9-13 and 28-31, the space, and the Unicode
  separators listed below.
\<close>

definition py_isspace :: "nat \<Rightarrow> bool" where
  "py_isspace c \<longleftrightarrow>
     (9 \<le> c \<and> c \<le> 13) \<or> (28 \<le> c \<and> c \<le> 32) \<or> c = 133 \<or> c = 160 \<or> c = 5760 \<or>
     (8192 \<le> c \<and> c \<le> 8202) \<or> c = 8232 \<or> c = 8233 \<or> c = 8239 \<or> c = 8287 \<or> c = 12288"

definition strip :: "pystr \<Rightarrow> pystr" where
  "strip s = rev (dropWhile py_isspace (rev (dropWhile py_isspace s)))"

text \<open>
  The exceptions the modelled code can meet, all instances of \<open>Exception\<close>: the lookup
  errors of the JSON navigation, the \<open>HTTPError\<close> of \<open>raise_for_status\<close> with the status
  it reports, and \<open>Raised d\<close> for any other one (a \<open>requests\<close> transport error, a JSON
  decoding error) with its description \<open>str(e) = d\<close>.
\<close>

datatype pykey = KStr pystr | KInt int

datatype pyexn =
  KeyError pykey | IndexError | TypeError | AttributeError | HTTPError int | Raised pystr

text \<open>What \<open>response.json()\<close> returns: dict, list, str, int, float, bool or None.\<close>

datatype pyfloat = Finite rat | PosInf | NegInf | NaN

datatype json =
    JNull
  | JBool bool
  | JInt int
  | JFloat pyfloat
  | JStr pystr
  | JArr "json list"
  | JObj "(pystr \<times> json) list"

text \<open>Truth value testing (\<open>not x\<close>, \<open>if x\<close>).\<close>

fun truthy :: "json \<Rightarrow> bool" where
  "truthy JNull = False"
| "truthy (JBool b) = b"
| "truthy (JInt i) = (i \<noteq> 0)"
| "truthy (JFloat f) = (f \<noteq> Finite 0)"
| "truthy (JStr s) = (s \<noteq> [])"
| "truthy (JArr xs) = (xs \<noteq> [])"
| "truthy (JObj kvs) = (kvs \<noteq> [])"

text \<open>\<open>x.get(k, d)\<close>: only a dict has the method.\<close>

fun py_get :: "json \<Rightarrow> pystr \<Rightarrow> json \<Rightarrow> pyexn + json" where
  "py_get (JObj kvs) k d = (case map_of kvs k of None \<Rightarrow> Inr d | Some v \<Rightarrow> Inr v)"
| "py_get _ k d = Inl AttributeError"

text \<open>\<open>x[k]\<close> with a string key \<open>k\<close>.\<close>

fun subscript_key :: "json \<Rightarrow> pystr \<Rightarrow> pyexn + json" where
  "subscript_key (JObj kvs) k =
     (case map_of kvs k of None \<Rightarrow> Inl (KeyError (KStr k)) | Some v \<Rightarrow> Inr v)"
| "subscript_key _ k = Inl TypeError"

text \<open>\<open>x[0]\<close>: the keys of a parsed JSON object are strings, so a dict has no key 0.\<close>

fun subscript_zero :: "json \<Rightarrow> pyexn + json" where
  "subscript_zero (JArr xs) = (case xs of [] \<Rightarrow> Inl IndexError | x # _ \<Rightarrow> Inr x)"
| "subscript_zero (JStr s) = (case s of [] \<Rightarrow> Inl IndexError | c # _ \<Rightarrow> Inr (JStr [c]))"
| "subscript_zero (JObj kvs) = Inl (KeyError (KInt 0))"
| "subscript_zero _ = Inl TypeError"

text \<open>\<open>x.strip()\<close>: only a str has the method.\<close>

fun py_strip :: "json \<Rightarrow> pyexn + pystr" where
  "py_strip (JStr s) = Inr (strip s)"
| "py_strip _ = Inl AttributeError"

definition bind :: "pyexn + 'a \<Rightarrow> ('a \<Rightarrow> pyexn + 'b) \<Rightarrow> pyexn + 'b" where
  "bind m f = (case m of Inl e \<Rightarrow> Inl e | Inr x \<Rightarrow> f x)"

section \<open>The HTTP exchange with the provider\<close>

datatype payload =
    Multipart pystr pystr pybytes pystr  \<comment> \<open>\<open>files = {field: (filename, content, type)}\<close>\<close>
  | Raw pybytes                          \<comment> \<open>\<open>data = content\<close>\<close>

record request =
  url :: pystr
  headers :: "(pystr \<times> pystr) list"
  params :: "(pystr \<times> pystr) list"
  body :: payload
  timeout :: "nat option"

record response =
  status_code :: int
  body_text :: pystr  \<comment> \<open>the attribute \<open>text\<close>\<close>
  json_result :: "pyexn + json"  \<comment> \<open>the outcome of \<open>response.json()\<close>\<close>

text \<open>\<open>requests.post\<close>: raises, or returns a response.\<close>

type_synonym provider = "request \<Rightarrow> pyexn + response"

record uploaded_file =
  name :: pystr
  ftype :: "pystr option"  \<comment> \<open>the attribute \<open>type\<close>\<close>
  getvalue :: pybytes

text \<open>\<open>audio_file.type or 'audio/mpeg'\<close>\<close>

definition type_or_default :: "uploaded_file \<Rightarrow> pystr" where
  "type_or_default audio_file =
     (case ftype audio_file of
        None \<Rightarrow> ustr ''audio/mpeg''
      | Some t \<Rightarrow> if t = [] then ustr ''audio/mpeg'' else t)"

section \<open>The two transcription attempts (transcribe_app.py)\<close>

text \<open>
  What the script shows: one constructor for each message template of the source, carrying
  the values the template interpolates.
\<close>

datatype validation_message =
    NoFileUploaded            \<comment> \<open>"No file uploaded"\<close>
  | FileTooLarge rat          \<comment> \<open>"File too large ({file_size_mb:.1f} MB). Maximum size is 25MB."\<close>
  | UnsupportedFileType       \<comment> \<open>"Unsupported file type. Supported formats: ..."\<close>
  | ValidFile pystr rat       \<comment> \<open>"Valid file: {name} ({file_size_mb:.1f} MB)"\<close>

datatype message_text =
    ApiError int pystr        \<comment> \<open>"Transcription failed - API Error {status_code}: {text}"\<close>
  | TranscriptionError pyexn  \<comment> \<open>"Transcription error: {str(e)}"\<close>
  | TranscriptionEmpty        \<comment> \<open>"Transcription is empty. Audio might be too quiet or unclear."\<close>
  | Validation validation_message
  | StartingTranscription     \<comment> \<open>"Starting transcription process..."\<close>
  | SendingFile               \<comment> \<open>"Sending file to Deepgram..."\<close>
  | PrimaryFailed             \<comment> \<open>"Primary method failed, trying alternative method..."\<close>
  | PrimarySucceeded          \<comment> \<open>"Primary method succeeded!"\<close>
  | TranscriptionCompleted    \<comment> \<open>"Transcription completed successfully!"\<close>
  | FailedBothMethods         \<comment> \<open>"Transcription failed with both methods."\<close>
  | UnableToTranscribe        \<comment> \<open>"Unable to transcribe the audio file. Please check:"\<close>
  | CheckClearSpeech          \<comment> \<open>"- File contains clear speech"\<close>
  | CheckAudioQuality         \<comment> \<open>"- Audio quality is good"\<close>
  | CheckNotCorrupted         \<comment> \<open>"- File is not corrupted"\<close>
  | CheckApiKey               \<comment> \<open>"- Your Deepgram API key is valid and has credits"\<close>
  | RateLimitExceeded         \<comment> \<open>"**Gemini API Rate Limit Exceeded**"\<close>
  | RateLimitSolutions        \<comment> \<open>the warning "**Solutions:** ..."\<close>
  | RateLimitTip              \<comment> \<open>"**Tip**: Try asking shorter, more focused questions ..."\<close>
  | GeneratingError pystr     \<comment> \<open>"Error generating response: {error_str}"\<close>
  | InvalidFileExtension pystr  \<comment> \<open>Streamlit's "Invalid file extension: {extension}. Allowed: ..."\<close>

text \<open>The messages of the conversation (langchain's message classes).\<close>

datatype message = SystemMessage pystr | HumanMessage pystr | AIMessage pystr

text \<open>The observable effects of a run, in order: HTTP requests and calls of the UI.\<close>

datatype event =
    HttpPost request          \<comment> \<open>\<open>requests.post(...)\<close>\<close>
  | StError message_text      \<comment> \<open>\<open>st.error\<close>\<close>
  | StWarning message_text    \<comment> \<open>\<open>st.warning\<close>\<close>
  | StSuccess message_text    \<comment> \<open>\<open>st.success\<close>\<close>
  | StInfo message_text       \<comment> \<open>\<open>st.info\<close>\<close>
  | StWrite message_text      \<comment> \<open>\<open>st.write\<close>\<close>
  | StatusText message_text   \<comment> \<open>\<open>status_text.text\<close>\<close>
  | Progress nat              \<comment> \<open>\<open>progress_bar.progress\<close>\<close>
  | ProgressEmpty             \<comment> \<open>\<open>progress_bar.empty()\<close>\<close>
  | StatusEmpty               \<comment> \<open>\<open>status_text.empty()\<close>\<close>
  | ShowTranscript pystr      \<comment> \<open>\<open>st.write(transcript_text)\<close> in the expander\<close>
  | ShowMessage message       \<comment> \<open>\<open>st.chat_message(msg.type)\<close> with \<open>st.markdown(msg.content)\<close>\<close>
  | LlmInvoke "message list"  \<comment> \<open>\<open>llm.invoke(limited_history)\<close>\<close>
  | StException message_text  \<comment> \<open>the exception Streamlit shows when it ends the run\<close>

definition deepgram_url :: pystr where
  "deepgram_url = ustr ''https://api.deepgram.com/v1/listen''"

definition authorization :: "pystr \<Rightarrow> pystr \<times> pystr" where
  "authorization DEEPGRAM_API_KEY = (ustr ''Authorization'', ustr ''Token '' @ DEEPGRAM_API_KEY)"

text \<open>The request of \<open>transcribe_audio_primary\<close> (lines 50-73).\<close>

definition primary_request :: "pystr \<Rightarrow> uploaded_file \<Rightarrow> request" where
  "primary_request DEEPGRAM_API_KEY audio_file =
     \<lparr> url = deepgram_url,
       headers = [authorization DEEPGRAM_API_KEY],
       params = [(ustr ''detect_language'', ustr ''true''),
                 (ustr ''punctuate'', ustr ''true''),
                 (ustr ''model'', ustr ''nova-2''),
                 (ustr ''smart_format'', ustr ''true''),
                 (ustr ''diarize'', ustr ''false'')],
       body = Multipart (ustr ''audio'') (name audio_file) (getvalue audio_file)
                (type_or_default audio_file),
       timeout = Some 120 \<rparr>"

text \<open>The request of \<open>transcribe_audio_alternative\<close> (lines 104-124).\<close>

definition alternative_request :: "pystr \<Rightarrow> uploaded_file \<Rightarrow> request" where
  "alternative_request DEEPGRAM_API_KEY audio_file =
     \<lparr> url = deepgram_url,
       headers = [authorization DEEPGRAM_API_KEY,
                  (ustr ''Content-Type'', type_or_default audio_file)],
       params = [(ustr ''detect_language'', ustr ''true''),
                 (ustr ''punctuate'', ustr ''true''),
                 (ustr ''model'', ustr ''nova-2''),
                 (ustr ''smart_format'', ustr ''true'')],
       body = Raw (getvalue audio_file),
       timeout = Some 120 \<rparr>"

text \<open>
  Lines 80-95 of \<open>transcribe_audio_primary\<close>, after the status check: \<open>Inl e\<close> when the
  block raises \<open>e\<close>, \<open>Inr None\<close> at a \<open>return None\<close>, \<open>Inr (Some t)\<close> at the final return.
\<close>

definition primary_extract :: "response \<Rightarrow> pyexn + pystr option" where
  "primary_extract response =
     bind (json_result response) (\<lambda>result.
     bind (py_get result (ustr ''results'') (JObj [])) (\<lambda>results.
     bind (py_get results (ustr ''channels'') JNull) (\<lambda>channels.
     if \<not> truthy channels then Inr None
     else
       bind (subscript_key result (ustr ''results'')) (\<lambda>r.
       bind (subscript_key r (ustr ''channels'')) (\<lambda>chs.
       bind (subscript_zero chs) (\<lambda>channel.
       bind (py_get channel (ustr ''alternatives'') (JArr [])) (\<lambda>alternatives.
       if \<not> truthy alternatives then Inr None
       else
         bind (subscript_zero alternatives) (\<lambda>alternative.
         bind (py_get alternative (ustr ''transcript'') (JStr [])) (\<lambda>transcript.
         bind (py_strip transcript) (\<lambda>stripped.
         if stripped = [] then Inr None
         else Inr (Some stripped)))))))))))"

text \<open>
  \<open>transcribe_audio_primary\<close>: every exception of the body is caught and turned into
  \<open>None\<close>; nothing is shown. The second component is the trace of effects.
\<close>

definition transcribe_audio_primary ::
  "pystr \<Rightarrow> provider \<Rightarrow> uploaded_file \<Rightarrow> pystr option \<times> event list" where
  "transcribe_audio_primary DEEPGRAM_API_KEY post audio_file =
     (let rq = primary_request DEEPGRAM_API_KEY audio_file in
      (case post rq of
         Inl e \<Rightarrow> None
       | Inr response \<Rightarrow>
           if status_code response \<noteq> 200 then None
           else (case primary_extract response of Inl e \<Rightarrow> None | Inr r \<Rightarrow> r),
       [HttpPost rq]))"

text \<open>
  The chain of subscripts \<open>result["results"]["channels"][0]["alternatives"][0]["transcript"]\<close>
  (line 131; line 61 of Transcribe.py), and lines 130-131 of \<open>transcribe_audio_alternative\<close>.
\<close>

definition transcript_subscripts :: "json \<Rightarrow> pyexn + json" where
  "transcript_subscripts result =
     bind (subscript_key result (ustr ''results'')) (\<lambda>results.
     bind (subscript_key results (ustr ''channels'')) (\<lambda>channels.
     bind (subscript_zero channels) (\<lambda>channel.
     bind (subscript_key channel (ustr ''alternatives'')) (\<lambda>alternatives.
     bind (subscript_zero alternatives) (\<lambda>alternative.
     subscript_key alternative (ustr ''transcript''))))))"

definition alternative_extract :: "response \<Rightarrow> pyexn + json" where
  "alternative_extract response = bind (json_result response) transcript_subscripts"

text \<open>
  \<open>transcribe_audio_alternative\<close>: a status other than 200 is shown with \<open>st.error\<close>, an
  empty transcript with \<open>st.warning\<close>, an exception with \<open>st.error\<close>; all three return
  \<open>None\<close>.
\<close>

definition transcribe_audio_alternative ::
  "pystr \<Rightarrow> provider \<Rightarrow> uploaded_file \<Rightarrow> pystr option \<times> event list" where
  "transcribe_audio_alternative DEEPGRAM_API_KEY post audio_file =
     (let rq = alternative_request DEEPGRAM_API_KEY audio_file in
      case post rq of
        Inl e \<Rightarrow> (None, [HttpPost rq, StError (TranscriptionError e)])
      | Inr response \<Rightarrow>
          if status_code response \<noteq> 200
          then (None, [HttpPost rq,
                       StError (ApiError (status_code response) (body_text response))])
          else
            (case bind (alternative_extract response) py_strip of
               Inl e \<Rightarrow> (None, [HttpPost rq, StError (TranscriptionError e)])
             | Inr stripped \<Rightarrow>
                 if stripped = [] then (None, [HttpPost rq, StWarning TranscriptionEmpty])
                 else (Some stripped, [HttpPost rq])))"

section \<open>File validation\<close>

text \<open>
  \<open>os.path.splitext(p)[1]\<close> as \<open>posixpath\<close> computes it: the part of \<open>p\<close> from the last dot
  on, when that dot comes after the last slash and some character between them is not a
  dot; the empty string otherwise. \<open>rfind\<close> is \<open>str.rfind\<close> for one character: the last
  index, or -1.
\<close>

definition rfind :: "nat \<Rightarrow> pystr \<Rightarrow> int" where
  "rfind c p = (case filter (\<lambda>i. p ! i = c) (rev [0..<length p]) of
                  [] \<Rightarrow> - 1 | i # _ \<Rightarrow> int i)"

definition splitext_ext :: "pystr \<Rightarrow> pystr" where
  "splitext_ext p =
     (let sepIndex = rfind 47 p; dotIndex = rfind 46 p in
      if dotIndex > sepIndex \<and>
         list_ex (\<lambda>i. p ! i \<noteq> 46) [nat (sepIndex + 1)..<nat dotIndex]
      then drop (nat dotIndex) p
      else [])"

definition allowed_types :: "pystr list" where
  "allowed_types = [ustr ''audio/wav'', ustr ''audio/mpeg'', ustr ''audio/mp3'',
                    ustr ''audio/m4a'', ustr ''audio/flac'', ustr ''audio/ogg'']"

definition allowed_extensions :: "pystr list" where
  "allowed_extensions = [ustr ''.wav'', ustr ''.mp3'', ustr ''.m4a'', ustr ''.flac'', ustr ''.ogg'']"

text \<open>
  \<open>validate_audio_file\<close>. The parameter \<open>lower\<close> is \<open>str.lower\<close>, whose Unicode table is not
  part of the repository. \<open>file_size_mb\<close> is a float in the source; the division of an
  integer below \<open>2^53\<close> by \<open>2^20\<close> is exact, so the rational number is its value, and for
  larger files the rounded quotient is above 25 as well. The argument is \<open>None\<close> when
  there is no file: an uploaded file object is always true.
\<close>

definition file_size_mb :: "uploaded_file \<Rightarrow> rat" where
  "file_size_mb audio_file = of_nat (length (getvalue audio_file)) / (1024 * 1024)"

definition file_extension :: "(pystr \<Rightarrow> pystr) \<Rightarrow> uploaded_file \<Rightarrow> pystr" where
  "file_extension lower audio_file = lower (splitext_ext (name audio_file))"

definition type_not_allowed :: "uploaded_file \<Rightarrow> bool" where
  "type_not_allowed audio_file =
     (case ftype audio_file of None \<Rightarrow> True | Some t \<Rightarrow> t \<notin> set allowed_types)"

definition validate_audio_file ::
  "(pystr \<Rightarrow> pystr) \<Rightarrow> uploaded_file option \<Rightarrow> bool \<times> validation_message" where
  "validate_audio_file lower audio_file =
     (case audio_file of
        None \<Rightarrow> (False, NoFileUploaded)
      | Some f \<Rightarrow>
          if file_size_mb f > 25 then (False, FileTooLarge (file_size_mb f))
          else if type_not_allowed f \<and> file_extension lower f \<notin> set allowed_extensions
          then (False, UnsupportedFileType)
          else (True, ValidFile (name f) (file_size_mb f)))"

text \<open>\<open>str.lower\<close> on ASCII strings, to run the model on concrete inputs.\<close>

definition ascii_lower :: "pystr \<Rightarrow> pystr" where
  "ascii_lower s = map (\<lambda>c. if 65 \<le> c \<and> c \<le> 90 then c + 32 else c) s"

section \<open>The session and the upload section (lines 175-244)\<close>

text \<open>
  \<open>st.session_state\<close>: the key \<open>history\<close> is set on every run before it is used (lines
  39-42); \<open>transcript\<close> and \<open>last_uploaded_file\<close> may be absent.
\<close>

record session =
  history :: "message list"
  transcript :: "pystr option"
  last_uploaded_file :: "pystr option"

definition initial_history :: "message list" where
  "initial_history = [SystemMessage (ustr ''You are a helpful AI assistant. Answer user questions based on the provided transcription. Keep the conversation flowing naturally.'')]"

definition initial_session :: session where
  "initial_session = \<lparr> history = initial_history, transcript = None, last_uploaded_file = None \<rparr>"

text \<open>The system message of lines 222-231; 10 is the line feed.\<close>

definition context_msg :: "pystr \<Rightarrow> message" where
  "context_msg t = SystemMessage
     (ustr ''You are a helpful AI assistant. Answer user questions based on the provided audio transcription. Keep the conversation flowing naturally and refer to the transcription content when relevant.''
      @ [10, 10] @ ustr ''AUDIO TRANSCRIPTION:'' @ [10] @ t @ [10, 10]
      @ ustr ''Instructions:'' @ [10]
      @ ustr ''- Use this transcription to answer questions about the audio content'' @ [10]
      @ ustr ''- You can discuss topics beyond the transcription if the user asks'' @ [10]
      @ ustr ''- Maintain a conversational and helpful tone'' @ [10]
      @ ustr ''- Reference specific parts of the transcription when relevant'')"

text \<open>
  Lines 198-214, the operation the specification calls \<open>acquire\<close>: the primary attempt,
  and the alternative one when the primary returned \<open>None\<close>.
\<close>

definition acquire ::
  "pystr \<Rightarrow> provider \<Rightarrow> uploaded_file \<Rightarrow> pystr option \<times> event list" where
  "acquire DEEPGRAM_API_KEY post uploaded =
     (case transcribe_audio_primary DEEPGRAM_API_KEY post uploaded of
        (None, ev1) \<Rightarrow>
          (case transcribe_audio_alternative DEEPGRAM_API_KEY post uploaded of
             (t, ev2) \<Rightarrow>
               (t, [Progress 25, StatusText SendingFile] @ ev1 @
                   [Progress 50, StatusText PrimaryFailed] @ ev2 @
                   [Progress 75, Progress 100]))
      | (Some t, ev1) \<Rightarrow>
          (Some t, [Progress 25, StatusText SendingFile] @ ev1 @
                   [Progress 50, StatusText PrimarySucceeded, Progress 75, Progress 100]))"

text \<open>
  Lines 176-244 for an uploaded file. The third component tells whether \<open>st.stop()\<close>
  ended the run.
\<close>

definition transcription_failed :: "event list" where
  "transcription_failed =
     [StatusText FailedBothMethods, StError UnableToTranscribe,
      StWrite CheckClearSpeech, StWrite CheckAudioQuality,
      StWrite CheckNotCorrupted, StWrite CheckApiKey]"

definition upload_section ::
  "(pystr \<Rightarrow> pystr) \<Rightarrow> pystr \<Rightarrow> provider \<Rightarrow> session \<Rightarrow> uploaded_file
     \<Rightarrow> session \<times> event list \<times> bool" where
  "upload_section lower DEEPGRAM_API_KEY post s uploaded =
     (case validate_audio_file lower (Some uploaded) of
        (False, validation_message) \<Rightarrow> (s, [StError (Validation validation_message)], True)
      | (True, validation_message) \<Rightarrow>
          (let file_changed = (last_uploaded_file s \<noteq> Some (name uploaded));
               needs_transcription = (transcript s = None \<or> file_changed)
           in if needs_transcription
              then (case acquire DEEPGRAM_API_KEY post uploaded of
                      (t, evs) \<Rightarrow>
                        (let before = [StSuccess (Validation validation_message),
                                       StInfo StartingTranscription, Progress 0] @ evs;
                             after = [ProgressEmpty, StatusEmpty]
                         in case t of
                              None \<Rightarrow> (s, before @ transcription_failed @ after, False)
                            | Some text \<Rightarrow>
                                if text \<noteq> []
                                then (s\<lparr> transcript := Some text,
                                         last_uploaded_file := Some (name uploaded),
                                         history := [context_msg text] \<rparr>,
                                      before @ [StatusText TranscriptionCompleted] @ after,
                                      False)
                                else (s, before @ transcription_failed @ after, False)))
              else (s, [StSuccess (Validation validation_message)], False)))"

section \<open>The chat section (lines 249-346)\<close>

text \<open>\<open>sub in s\<close> for two strings.\<close>

fun contains :: "pystr \<Rightarrow> pystr \<Rightarrow> bool" where
  "contains sub [] = (sub = [])"
| "contains sub (c # cs) = (take (length sub) (c # cs) = sub \<or> contains sub cs)"

text \<open>Lines 306-311: the system message and the last four messages, or everything.\<close>

definition limited_history :: "message list \<Rightarrow> message list" where
  "limited_history h = (if length h > 5 then take 1 h @ drop (length h - 4) h else h)"

text \<open>The history starts with a system message.\<close>

definition system_first :: "message list \<Rightarrow> bool" where
  "system_first h = (case h of SystemMessage c # rest \<Rightarrow> True | _ \<Rightarrow> False)"

text \<open>
  The language-model client: the constructor \<open>ChatGoogleGenerativeAI(...)\<close> raises
  (\<open>Inl d\<close>, an exception with \<open>str(e) = d\<close>) or gives a client, whose \<open>invoke\<close> raises or
  returns a response with its \<open>content\<close>.
\<close>

type_synonym llm_client = "pystr + (message list \<Rightarrow> pystr + pystr)"

text \<open>The handler of an exception in the chat turn (lines 324-346).\<close>

definition chat_except ::
  "(pystr \<Rightarrow> pystr) \<Rightarrow> message list \<Rightarrow> pystr \<Rightarrow> message list \<times> event list" where
  "chat_except lower h error_str =
     (if h \<noteq> [] \<and> (case last h of HumanMessage _ \<Rightarrow> True | _ \<Rightarrow> False) then butlast h else h,
      if contains (ustr ''429'') error_str \<or> contains (ustr ''quota'') (lower error_str)
      then [StError RateLimitExceeded, StWarning RateLimitSolutions, StInfo RateLimitTip]
      else [StError (GeneratingError error_str)])"

text \<open>
  Lines 285-346, one chat turn for the input \<open>prompt\<close>. The calls of the UI do not raise;
  \<open>time.sleep(1)\<close> is not modelled.
\<close>

definition chat_turn ::
  "(pystr \<Rightarrow> pystr) \<Rightarrow> llm_client \<Rightarrow> session \<Rightarrow> pystr \<Rightarrow> session \<times> event list" where
  "chat_turn lower ChatGoogleGenerativeAI s prompt =
     (let h1 = history s @ [HumanMessage prompt];
          shown = [ShowMessage (HumanMessage prompt)]
      in case ChatGoogleGenerativeAI of
           Inl d \<Rightarrow>
             (case chat_except lower h1 d of
                (h2, evs) \<Rightarrow> (s\<lparr> history := h2 \<rparr>, shown @ evs))
         | Inr invoke \<Rightarrow>
             (case invoke (limited_history h1) of
                Inl d \<Rightarrow>
                  (case chat_except lower h1 d of
                     (h2, evs) \<Rightarrow>
                       (s\<lparr> history := h2 \<rparr>, shown @ [LlmInvoke (limited_history h1)] @ evs))
              | Inr content \<Rightarrow>
                  (s\<lparr> history := h1 @ [AIMessage content] \<rparr>,
                   shown @ [LlmInvoke (limited_history h1), ShowMessage (AIMessage content)])))"

text \<open>
  Lines 249-346: the transcript and the conversation are shown, and a non-empty chat
  input starts a turn. The caption with the statistics and the download button are not
  modelled.
\<close>

definition chat_section ::
  "(pystr \<Rightarrow> pystr) \<Rightarrow> llm_client \<Rightarrow> session \<Rightarrow> pystr option \<Rightarrow> session \<times> event list" where
  "chat_section lower ChatGoogleGenerativeAI s chat_input =
     (case transcript s of
        None \<Rightarrow> (s, [])
      | Some transcript_text \<Rightarrow>
          if transcript_text = [] then (s, [])
          else
            (let shown = ShowTranscript transcript_text # map ShowMessage (tl (history s))
             in case chat_input of
                  None \<Rightarrow> (s, shown)
                | Some prompt \<Rightarrow>
                    if prompt = [] then (s, shown)
                    else (case chat_turn lower ChatGoogleGenerativeAI s prompt of
                            (s', evs) \<Rightarrow> (s', shown @ evs))))"

text \<open>
  One run of the script from line 175 to line 346, for the state of the widgets: the file
  in the uploader and the text in the chat input. The sidebar is not modelled.
\<close>

definition script_run ::
  "(pystr \<Rightarrow> pystr) \<Rightarrow> pystr \<Rightarrow> provider \<Rightarrow> llm_client \<Rightarrow> session
     \<Rightarrow> uploaded_file option \<Rightarrow> pystr option \<Rightarrow> session \<times> event list" where
  "script_run lower DEEPGRAM_API_KEY post ChatGoogleGenerativeAI s uploaded_file chat_input =
     (case uploaded_file of
        None \<Rightarrow> (s, [])
      | Some f \<Rightarrow>
          (case upload_section lower DEEPGRAM_API_KEY post s f of
             (s1, ev1, stopped) \<Rightarrow>
               if stopped then (s1, ev1)
               else (case chat_section lower ChatGoogleGenerativeAI s1 chat_input of
                       (s2, ev2) \<Rightarrow> (s2, ev1 @ ev2))))"




text \<open>The requests and the language-model calls of a trace.\<close>

definition http_posts :: "event list \<Rightarrow> request list" where
  "http_posts evs = concat (map (\<lambda>e. case e of HttpPost rq \<Rightarrow> [rq] | _ \<Rightarrow> []) evs)"

definition llm_calls :: "event list \<Rightarrow> message list list" where
  "llm_calls evs = concat (map (\<lambda>e. case e of LlmInvoke h \<Rightarrow> [h] | _ \<Rightarrow> []) evs)"

section \<open>The command-line script (Transcribe.py)\<close>

text \<open>
  Lines 34-66, once the file has been read: one request with the raw body and no timeout.
  Nothing catches the exceptions of the request, of \<open>raise_for_status\<close> (which raises for
  the statuses 400 to 599) and of \<open>response.json()\<close>; of the extraction only a \<open>KeyError\<close>
  is caught. The result is what was printed and the exception that ended the script, if
  one did.
\<close>

datatype cli_line =
    DeepgramError int pystr   \<comment> \<open>"Deepgram Error {status_code}: {text}"\<close>
  | TranscriptionResult json  \<comment> \<open>the heading, the rule and the transcript\<close>
  | NoSpeechDetected          \<comment> \<open>the heading, the rule and "No speech detected in audio."\<close>
  | UnexpectedFormat json     \<comment> \<open>"Unexpected response format from Deepgram: {result}"\<close>

definition cli_request :: "pystr \<Rightarrow> pystr \<Rightarrow> pybytes \<Rightarrow> request" where
  "cli_request DEEPGRAM_API_KEY mime_type audio_data =
     \<lparr> url = deepgram_url,
       headers = [authorization DEEPGRAM_API_KEY, (ustr ''Content-Type'', mime_type)],
       params = [(ustr ''detect_language'', ustr ''true''), (ustr ''punctuate'', ustr ''true'')],
       body = Raw audio_data,
       timeout = None \<rparr>"

definition raise_for_status :: "response \<Rightarrow> pyexn option" where
  "raise_for_status response =
     (if 400 \<le> status_code response \<and> status_code response < 600
      then Some (HTTPError (status_code response)) else None)"

definition cli_display :: "json \<Rightarrow> cli_line list \<times> pyexn option" where
  "cli_display result =
     (case transcript_subscripts result of
        Inl (KeyError k) \<Rightarrow> ([UnexpectedFormat result], None)
      | Inl e \<Rightarrow> ([], Some e)
      | Inr tr \<Rightarrow> ([if truthy tr then TranscriptionResult tr else NoSpeechDetected], None))"

definition cli_transcribe ::
  "pystr \<Rightarrow> provider \<Rightarrow> pystr \<Rightarrow> pybytes \<Rightarrow> cli_line list \<times> pyexn option" where
  "cli_transcribe DEEPGRAM_API_KEY post mime_type audio_data =
     (case post (cli_request DEEPGRAM_API_KEY mime_type audio_data) of
        Inl e \<Rightarrow> ([], Some e)
      | Inr response \<Rightarrow>
          (let shown = (if status_code response \<noteq> 200
                        then [DeepgramError (status_code response) (body_text response)]
                        else [])
           in case (if status_code response \<noteq> 200 then raise_for_status response else None) of
                Some e \<Rightarrow> (shown, Some e)
              | None \<Rightarrow>
                  (case json_result response of
                     Inl e \<Rightarrow> (shown, Some e)
                   | Inr result \<Rightarrow>
                       (case cli_display result of (lines, e) \<Rightarrow> (shown @ lines, e)))))"

section \<open>The response shape of the specification, and stub providers\<close>

text \<open>
  The path \<open>results \<rightarrow> channels[0] \<rightarrow> alternatives[0] \<rightarrow> transcript\<close> as the specification
  words it: fields of objects, first items of arrays, a string at the end. A body is
  malformed when the path is not there.
\<close>

fun field :: "json \<Rightarrow> pystr \<Rightarrow> json option" where
  "field (JObj kvs) k = map_of kvs k"
| "field _ k = None"

fun first_item :: "json \<Rightarrow> json option" where
  "first_item (JArr (x # xs)) = Some x"
| "first_item _ = None"

fun as_text :: "json \<Rightarrow> pystr option" where
  "as_text (JStr s) = Some s"
| "as_text _ = None"

definition transcript_path :: "json \<Rightarrow> pystr option" where
  "transcript_path j =
     Option.bind (field j (ustr ''results'')) (\<lambda>results.
     Option.bind (field results (ustr ''channels'')) (\<lambda>channels.
     Option.bind (first_item channels) (\<lambda>channel.
     Option.bind (field channel (ustr ''alternatives'')) (\<lambda>alternatives.
     Option.bind (first_item alternatives) (\<lambda>alternative.
     Option.bind (field alternative (ustr ''transcript'')) as_text)))))"

text \<open>
  The soft failures of the primary attempt as the specification lists them: an exception
  of the transport, a status other than the success code, a body that does not parse or
  lacks the path.
\<close>

definition primary_soft_failure :: "pyexn + response \<Rightarrow> bool" where
  "primary_soft_failure outcome =
     (case outcome of
        Inl e \<Rightarrow> True
      | Inr r \<Rightarrow>
          status_code r \<noteq> 200 \<or>
          (case json_result r of Inl e \<Rightarrow> True | Inr j \<Rightarrow> transcript_path j = None))"

text \<open>A provider stub answers by transport: one outcome for multipart, one for a raw body.\<close>

definition stub_provider :: "pyexn + response \<Rightarrow> pyexn + response \<Rightarrow> provider" where
  "stub_provider a b rq = (case body rq of Multipart _ _ _ _ \<Rightarrow> a | Raw _ \<Rightarrow> b)"

definition deepgram_body :: "pystr \<Rightarrow> json" where
  "deepgram_body t =
     JObj [(ustr ''results'',
       JObj [(ustr ''channels'',
         JArr [JObj [(ustr ''alternatives'',
           JArr [JObj [(ustr ''transcript'', JStr t)]])]])])]"

definition ok_response :: "pystr \<Rightarrow> response" where
  "ok_response t =
     \<lparr> status_code = 200, body_text = ustr ''(json)'', json_result = Inr (deepgram_body t) \<rparr>"

definition error_response :: "int \<Rightarrow> pystr \<Rightarrow> response" where
  "error_response code t =
     \<lparr> status_code = code, body_text = t,
       json_result = Inl (Raised (ustr ''Expecting value: line 1 column 1 (char 0)'')) \<rparr>"

definition demo_file :: uploaded_file where
  "demo_file = \<lparr> name = ustr ''talk.mp3'', ftype = Some (ustr ''audio/mpeg''),
                 getvalue = [73, 68, 51, 4] \<rparr>"

definition demo_key :: pystr where
  "demo_key = ustr ''dg_secret''"

text \<open>A provider whose multipart answer carries speech; its raw-body transport is down.\<close>

definition primary_ok_provider :: provider where
  "primary_ok_provider =
     stub_provider (Inr (ok_response (ustr '' hello world '')))
       (Inl (Raised (ustr ''connection reset'')))"

text \<open>The first scenarios of the specification, and a provider that hears nothing.\<close>

definition fallback_provider :: provider where
  "fallback_provider =
     stub_provider (Inr (error_response 415 (ustr ''Unsupported Media Type'')))
       (Inr (ok_response (ustr ''hello world'')))"

definition failing_provider :: provider where
  "failing_provider =
     stub_provider (Inl (Raised (ustr ''connection reset'')))
       (Inr (error_response 401 (ustr ''Invalid credentials'')))"

definition silent_provider :: provider where
  "silent_provider = stub_provider (Inr (ok_response [])) (Inr (ok_response (ustr ''   '')))"

text \<open>Files for the validation: a text file declared as audio, and 25 MB plus one byte.\<close>

definition text_file :: uploaded_file where
  "text_file = \<lparr> name = ustr ''notes.txt'', ftype = Some (ustr ''audio/mpeg''),
                 getvalue = [104, 105] \<rparr>"


text \<open>A second recording under the name of the first.\<close>

definition other_file :: uploaded_file where
  "other_file = \<lparr> name = ustr ''talk.mp3'', ftype = Some (ustr ''audio/mpeg''),
                  getvalue = [73, 68, 51, 3, 0, 0] \<rparr>"

definition demo_session :: session where
  "demo_session = \<lparr> history = [context_msg (ustr ''hello world'')],
                    transcript = Some (ustr ''hello world''),
                    last_uploaded_file = Some (ustr ''talk.mp3'') \<rparr>"

text \<open>A conversation of three earlier exchanges, and two language-model clients.\<close>

definition long_session :: session where
  "long_session = demo_session \<lparr> history :=
     [context_msg (ustr ''hello world''),
      HumanMessage (ustr ''q1''), AIMessage (ustr ''a1''),
      HumanMessage (ustr ''q2''), AIMessage (ustr ''a2''),
      HumanMessage (ustr ''q3''), AIMessage (ustr ''a3'')] \<rparr>"

definition echo_client :: llm_client where
  "echo_client = Inr (\<lambda>h. Inr (ustr ''ok''))"

definition quota_client :: llm_client where
  "quota_client = Inr (\<lambda>h. Inl (ustr ''429 Resource has been exhausted''))"

section \<open>Lemmas about the Python operations\<close>

lemma ustr_eq_iff [simp]: "ustr a = ustr b \<longleftrightarrow> a = b"
  by (simp add: ustr_def inj_map_eq_map [OF inj_of_char])

lemma strip_Nil [simp]: "strip [] = []"
  by (simp add: strip_def)

lemma py_get_field:
  "py_get j k d = Inr v \<Longrightarrow> field j k = Some v \<or> (field j k = None \<and> v = d)"
  by (cases j) (auto split: option.splits)

lemma field_py_get: "field j k = Some v \<Longrightarrow> py_get j k d = Inr v"
  by (cases j) auto

lemma subscript_key_field: "subscript_key j k = Inr v \<longleftrightarrow> field j k = Some v"
  by (cases j) (auto split: option.splits)

lemma subscript_zero_first:
  "subscript_zero j = Inr v \<Longrightarrow> first_item j = Some v \<or> (\<exists>c. v = JStr [c])"
  by (cases j) (auto split: list.splits)

lemma first_item_subscript:
  "first_item j = Some v \<Longrightarrow> subscript_zero j = Inr v \<and> truthy j"
  by (cases j rule: first_item.cases) auto

lemma py_strip_text: "py_strip j = Inr s \<longleftrightarrow> (\<exists>t. as_text j = Some t \<and> s = strip t)"
  by (cases j) auto

lemma transcript_pathD:
  assumes "transcript_path j = Some t"
  obtains results channels channel alternatives alternative tr where
    "field j (ustr ''results'') = Some results"
    "field results (ustr ''channels'') = Some channels"
    "first_item channels = Some channel"
    "field channel (ustr ''alternatives'') = Some alternatives"
    "first_item alternatives = Some alternative"
    "field alternative (ustr ''transcript'') = Some tr"
    "as_text tr = Some t"
  using assms unfolding transcript_path_def by (auto simp: bind_eq_Some_conv)

text \<open>The primary extraction returns a text exactly for a well-formed body with a
  transcript that is not empty after trimming.\<close>

lemma primary_extract_path:
  assumes "json_result r = Inr j" and "transcript_path j = Some t"
  shows "primary_extract r = Inr (if strip t = [] then None else Some (strip t))"
proof -
  from assms(2) obtain results channels channel alternatives alternative tr where
    p: "field j (ustr ''results'') = Some results"
       "field results (ustr ''channels'') = Some channels"
       "first_item channels = Some channel"
       "field channel (ustr ''alternatives'') = Some alternatives"
       "first_item alternatives = Some alternative"
       "field alternative (ustr ''transcript'') = Some tr"
       "as_text tr = Some t"
    by (rule transcript_pathD)
  from p(7) have s: "py_strip tr = Inr (strip t)"
    by (simp add: py_strip_text)
  show ?thesis
    unfolding primary_extract_def
    by (simp add: bind_def assms(1) field_py_get [OF p(1)] field_py_get [OF p(2)]
        field_py_get [OF p(4)] field_py_get [OF p(6)]
        subscript_key_field [THEN iffD2, OF p(1)] subscript_key_field [THEN iffD2, OF p(2)]
        first_item_subscript [OF p(3)] first_item_subscript [OF p(5)] s)
qed

lemma primary_extract_Some:
  assumes "primary_extract r = Inr (Some s)"
  shows "\<exists>j t. json_result r = Inr j \<and> transcript_path j = Some t \<and> s = strip t \<and> s \<noteq> []"
  using assms
  unfolding primary_extract_def bind_def transcript_path_def
  by (auto split: sum.splits if_splits simp: subscript_key_field py_strip_text
      dest!: py_get_field subscript_zero_first)

text \<open>The alternative extraction succeeds exactly for a well-formed body.\<close>

lemma alternative_extract_path:
  assumes "json_result r = Inr j" and "transcript_path j = Some t"
  shows "bind (alternative_extract r) py_strip = Inr (strip t)"
proof -
  from assms(2) obtain results channels channel alternatives alternative tr where
    p: "field j (ustr ''results'') = Some results"
       "field results (ustr ''channels'') = Some channels"
       "first_item channels = Some channel"
       "field channel (ustr ''alternatives'') = Some alternatives"
       "first_item alternatives = Some alternative"
       "field alternative (ustr ''transcript'') = Some tr"
       "as_text tr = Some t"
    by (rule transcript_pathD)
  from p(7) have s: "py_strip tr = Inr (strip t)"
    by (simp add: py_strip_text)
  show ?thesis
    unfolding alternative_extract_def transcript_subscripts_def
    by (simp add: bind_def assms(1)
        subscript_key_field [THEN iffD2, OF p(1)] subscript_key_field [THEN iffD2, OF p(2)]
        subscript_key_field [THEN iffD2, OF p(4)] subscript_key_field [THEN iffD2, OF p(6)]
        first_item_subscript [OF p(3)] first_item_subscript [OF p(5)] s)
qed

lemma alternative_extract_Inr:
  assumes "bind (alternative_extract r) py_strip = Inr s"
  shows "\<exists>j t. json_result r = Inr j \<and> transcript_path j = Some t \<and> s = strip t"
  using assms
  unfolding alternative_extract_def transcript_subscripts_def bind_def transcript_path_def
  by (auto split: sum.splits if_splits simp: subscript_key_field py_strip_text
      dest!: subscript_zero_first)

section \<open>Lemmas about the two attempts\<close>

lemma http_posts_Nil [simp]: "http_posts [] = []"
  by (simp add: http_posts_def)

lemma http_posts_Cons [simp]:
  "http_posts (e # evs) = (case e of HttpPost rq \<Rightarrow> [rq] | _ \<Rightarrow> []) @ http_posts evs"
  by (simp add: http_posts_def)

lemma http_posts_append [simp]: "http_posts (xs @ ys) = http_posts xs @ http_posts ys"
  by (simp add: http_posts_def)

lemma primary_request_neq_alternative: "primary_request k f \<noteq> alternative_request k' f'"
  by (simp add: primary_request_def alternative_request_def)

lemma primary_events:
  "snd (transcribe_audio_primary k post f) = [HttpPost (primary_request k f)]"
  by (simp add: transcribe_audio_primary_def Let_def)

lemma alternative_posts:
  "http_posts (snd (transcribe_audio_alternative k post f)) = [alternative_request k f]"
  by (simp add: transcribe_audio_alternative_def Let_def split: sum.splits)

lemma primary_result:
  assumes "post (primary_request k f) = Inr r" and "status_code r = 200"
    and "json_result r = Inr j" and "transcript_path j = Some t"
  shows "fst (transcribe_audio_primary k post f) =
           (if strip t = [] then None else Some (strip t))"
  using assms by (simp add: transcribe_audio_primary_def Let_def primary_extract_path)

lemma strip_hello: "strip (ustr '' hello world '') = ustr ''hello world''"
  by (simp add: strip_def ustr_def py_isspace_def)

lemma transcript_path_deepgram_body [simp]: "transcript_path (deepgram_body t) = Some t"
  by (simp add: transcript_path_def deepgram_body_def)

lemma primary_soft_failure_None:
  assumes "primary_soft_failure (post (primary_request k f))"
  shows "transcribe_audio_primary k post f = (None, [HttpPost (primary_request k f)])"
proof -
  have "fst (transcribe_audio_primary k post f) = None"
  proof (cases "fst (transcribe_audio_primary k post f)")
    case None
    then show ?thesis .
  next
    case (Some s)
    then obtain r where r: "post (primary_request k f) = Inr r" "status_code r = 200"
        "primary_extract r = Inr (Some s)"
      by (auto simp: transcribe_audio_primary_def Let_def split: sum.splits if_splits)
    from primary_extract_Some [OF r(3)] obtain j t where
      "json_result r = Inr j" "transcript_path j = Some t" by blast
    with assms r show ?thesis
      by (simp add: primary_soft_failure_def)
  qed
  with primary_events [of k post f] show ?thesis
    by (simp add: prod_eq_iff)
qed

lemma alternative_depends:
  "post' (alternative_request k f) = post (alternative_request k f) \<Longrightarrow>
   transcribe_audio_alternative k post' f = transcribe_audio_alternative k post f"
  by (simp only: transcribe_audio_alternative_def Let_def)

lemma acquire_after_None:
  assumes "transcribe_audio_primary k post f = (None, ev1)"
  shows "acquire k post f =
      (fst (transcribe_audio_alternative k post f),
       [Progress 25, StatusText SendingFile] @ ev1 @
       [Progress 50, StatusText PrimaryFailed] @
       snd (transcribe_audio_alternative k post f) @ [Progress 75, Progress 100])"
  using assms by (simp add: acquire_def split: prod.splits)

lemma ok_response_sel [simp]:
  "status_code (ok_response t) = 200" "json_result (ok_response t) = Inr (deepgram_body t)"
  by (simp_all add: ok_response_def)

lemma error_response_sel [simp]:
  "status_code (error_response c t) = c" "body_text (error_response c t) = t"
  by (simp_all add: error_response_def)

lemma stub_provider_requests [simp]:
  "stub_provider a b (primary_request k f) = a" "stub_provider a b (alternative_request k f) = b"
  by (simp_all add: stub_provider_def primary_request_def alternative_request_def)

lemma alternative_ok_response:
  "transcribe_audio_alternative k (stub_provider a (Inr (ok_response t))) f =
     (if strip t = [] then (None, [HttpPost (alternative_request k f), StWarning TranscriptionEmpty])
      else (Some (strip t), [HttpPost (alternative_request k f)]))"
  by (simp add: transcribe_audio_alternative_def Let_def
      alternative_extract_path [of "ok_response t" "deepgram_body t" t])

lemma strip_hello_world: "strip (ustr ''hello world'') = ustr ''hello world''"
  by (simp add: strip_def ustr_def py_isspace_def)

lemma fallback_alternative:
  "transcribe_audio_alternative demo_key fallback_provider demo_file =
     (Some (ustr ''hello world''), [HttpPost (alternative_request demo_key demo_file)])"
proof -
  have "ustr ''hello world'' \<noteq> []"
    by (simp add: ustr_def)
  then show ?thesis
    by (simp add: fallback_provider_def alternative_ok_response strip_hello_world)
qed

text \<open>
  The command-line script shows the status and the body as well, and then lets the
  \<open>HTTPError\<close> of \<open>raise_for_status\<close> end the run.
\<close>

lemma cli_status_raises:
  assumes "post (cli_request k m a) = Inr r" and "400 \<le> status_code r" and "status_code r < 600"
  shows "cli_transcribe k post m a =
    ([DeepgramError (status_code r) (body_text r)], Some (HTTPError (status_code r)))"
  using assms by (simp add: cli_transcribe_def raise_for_status_def)

lemma strip_whitespace: "(\<forall>c \<in> set t. py_isspace c) \<longleftrightarrow> strip t = []"
proof -
  have "set t = set (takeWhile py_isspace t) \<union> set (dropWhile py_isspace t)"
    by (metis set_append takeWhile_dropWhile_id)
  then show ?thesis
    by (auto simp: strip_def dropWhile_eq_Nil_conv dest: set_takeWhileD set_dropWhileD)
qed

lemma alternative_result:
  assumes "post (alternative_request k f) = Inr r" and "status_code r = 200"
    and "json_result r = Inr j" and "transcript_path j = Some t"
  shows "transcribe_audio_alternative k post f =
     (if strip t = []
      then (None, [HttpPost (alternative_request k f), StWarning TranscriptionEmpty])
      else (Some (strip t), [HttpPost (alternative_request k f)]))"
  using assms by (simp add: transcribe_audio_alternative_def Let_def alternative_extract_path)

lemma primary_result_events:
  assumes "post (primary_request k f) = Inr r" and "status_code r = 200"
    and "json_result r = Inr j" and "transcript_path j = Some t"
  shows "transcribe_audio_primary k post f =
           (if strip t = [] then None else Some (strip t), [HttpPost (primary_request k f)])"
  using primary_result [of post k f r j t, OF assms] primary_events [of k post f]
  by (simp add: prod_eq_iff)

lemma silent_primary:
  "transcribe_audio_primary demo_key silent_provider demo_file =
     (None, [HttpPost (primary_request demo_key demo_file)])"
  using primary_result_events [of silent_provider demo_key demo_file "ok_response []"
      "deepgram_body []" "[]"]
  by (simp add: silent_provider_def)

lemma strip_spaces: "strip (ustr ''   '') = []"
  by (simp add: strip_def ustr_def py_isspace_def)

lemma silent_alternative:
  "transcribe_audio_alternative demo_key silent_provider demo_file =
     (None, [HttpPost (alternative_request demo_key demo_file), StWarning TranscriptionEmpty])"
  by (simp add: silent_provider_def alternative_ok_response strip_spaces)

lemma validate_demo_file:
  "validate_audio_file lower (Some demo_file) = (True, ValidFile (ustr ''talk.mp3'') (1 / 262144))"
  by (simp add: validate_audio_file_def demo_file_def file_size_mb_def type_not_allowed_def
      allowed_types_def)

section \<open>Lemmas about the validation and the sections of the script\<close>

lemma llm_calls_Nil [simp]: "llm_calls [] = []"
  by (simp add: llm_calls_def)

lemma llm_calls_Cons [simp]:
  "llm_calls (e # evs) = (case e of LlmInvoke h \<Rightarrow> [h] | _ \<Rightarrow> []) @ llm_calls evs"
  by (simp add: llm_calls_def)

lemma llm_calls_append [simp]: "llm_calls (xs @ ys) = llm_calls xs @ llm_calls ys"
  by (simp add: llm_calls_def)


lemma file_size_le: "file_size_mb f > 25 \<longleftrightarrow> length (getvalue f) > 25 * 1024 * 1024"
proof -
  have "file_size_mb f > 25 \<longleftrightarrow> (of_nat (length (getvalue f)) :: rat) > 25 * (1024 * 1024)"
    unfolding file_size_mb_def by (simp add: less_divide_eq)
  also have "\<dots> \<longleftrightarrow> (of_nat (length (getvalue f)) :: rat) > of_nat (25 * 1024 * 1024)"
    by simp
  also have "\<dots> \<longleftrightarrow> length (getvalue f) > 25 * 1024 * 1024"
    by (simp only: of_nat_less_iff)
  finally show ?thesis .
qed

lemma validate_text_file:
  "validate_audio_file lower (Some text_file) = (True, ValidFile (ustr ''notes.txt'') (1 / 524288))"
  by (simp add: validate_audio_file_def text_file_def file_size_mb_def type_not_allowed_def
      allowed_types_def)

lemma upload_section_posts:
  assumes "validate_audio_file lower (Some f) = (True, m)"
    and "transcript s = None \<or> last_uploaded_file s \<noteq> Some (name f)"
  shows "http_posts (fst (snd (upload_section lower k post s f))) =
         http_posts (snd (acquire k post f))"
  using assms(2)
  by (auto simp add: upload_section_def assms(1) Let_def transcription_failed_def
      split: prod.splits option.splits)


lemma chat_turn_calls:
  "llm_calls (snd (chat_turn lower (Inr invoke) s prompt)) =
     [limited_history (history s @ [HumanMessage prompt])]"
  by (simp add: chat_turn_def Let_def chat_except_def split: sum.splits prod.splits)

lemma chat_turn_no_client:
  "llm_calls (snd (chat_turn lower (Inl d) s prompt)) = []"
  by (simp add: chat_turn_def Let_def chat_except_def split: sum.splits prod.splits)

lemma limited_history_long:
  assumes "length h > 5"
  shows "\<exists>older recent. h = hd h # older @ recent \<and> length recent = 4 \<and>
           limited_history h = hd h # recent"
proof -
  from assms obtain x xs where h: "h = x # xs"
    by (cases h) auto
  let ?recent = "drop (length h - 4) h"
  let ?older = "take (length xs - 4) xs"
  have r: "?recent = drop (length xs - 4) xs"
    using assms by (simp add: h drop_Cons')
  have "h = hd h # ?older @ ?recent"
    by (simp add: r) (simp add: h)
  moreover have "length ?recent = 4"
    using assms by simp
  moreover have "limited_history h = hd h # ?recent"
    using assms by (simp add: limited_history_def h)
  ultimately show ?thesis by blast
qed

lemma chat_except_history:
  "fst (chat_except lower (h @ [HumanMessage p]) d) = h"
  by (simp add: chat_except_def)

lemma last_limited_history:
  "last (limited_history (h @ [HumanMessage p])) = HumanMessage p"
  by (simp add: limited_history_def)

lemma chat_turn_no_client_session:
  "fst (chat_turn lower (Inl d) s prompt) = s"
  by (simp add: chat_turn_def Let_def chat_except_def)

lemma chat_turn_invoke_raises:
  "invoke (limited_history (history s @ [HumanMessage prompt])) = Inl d \<Longrightarrow>
   fst (chat_turn lower (Inr invoke) s prompt) = s"
  by (simp add: chat_turn_def Let_def chat_except_def)

text \<open>
  The upload section sets \<open>last_uploaded_file\<close> only together with \<open>transcript\<close>, so a
  session that remembers a file name has a transcript.
\<close>

lemma upload_section_cached:
  assumes "last_uploaded_file s = Some (name f)" and "transcript s = Some t"
  shows "upload_section lower k post s f =
     (case validate_audio_file lower (Some f) of
        (False, m) \<Rightarrow> (s, [StError (Validation m)], True)
      | (True, m) \<Rightarrow> (s, [StSuccess (Validation m)], False))"
  using assms by (simp add: upload_section_def split: prod.splits bool.splits)

lemma upload_section_invariant:
  assumes "upload_section lower k post s f = (s', evs, stopped)"
    and "last_uploaded_file s \<noteq> None \<longrightarrow> transcript s \<noteq> None"
  shows "last_uploaded_file s' \<noteq> None \<longrightarrow> transcript s' \<noteq> None"
  using assms
  by (auto simp add: upload_section_def Let_def split: prod.splits bool.splits option.splits if_splits)

lemma first_upload:
  "upload_section lower demo_key primary_ok_provider initial_session demo_file =
     (demo_session,
      [StSuccess (Validation (ValidFile (ustr ''talk.mp3'') (1 / 262144))),
       StInfo StartingTranscription, Progress 0,
       Progress 25, StatusText SendingFile, HttpPost (primary_request demo_key demo_file),
       Progress 50, StatusText PrimarySucceeded, Progress 75, Progress 100,
       StatusText TranscriptionCompleted, ProgressEmpty, StatusEmpty], False)"
proof -
  have "transcribe_audio_primary demo_key primary_ok_provider demo_file =
      (Some (ustr ''hello world''), [HttpPost (primary_request demo_key demo_file)])"
    using primary_result_events [of primary_ok_provider demo_key demo_file
        "ok_response (ustr '' hello world '')" "deepgram_body (ustr '' hello world '')"
        "ustr '' hello world ''"]
    by (simp add: primary_ok_provider_def strip_hello) (simp add: ustr_def)
  then have a: "acquire demo_key primary_ok_provider demo_file =
      (Some (ustr ''hello world''),
       [Progress 25, StatusText SendingFile, HttpPost (primary_request demo_key demo_file),
        Progress 50, StatusText PrimarySucceeded, Progress 75, Progress 100])"
    by (simp add: acquire_def)
  have n: "ustr ''hello world'' \<noteq> []"
    by (simp add: ustr_def)
  have d: "name demo_file = ustr ''talk.mp3''"
    by (simp add: demo_file_def)
  show ?thesis
    by (simp add: upload_section_def validate_demo_file a n d initial_session_def
        demo_session_def)
qed

text \<open>
  Every run of the script keeps a system message at the head of the history, as the
  initial history has one.
\<close>

lemma system_first_append: "system_first h \<Longrightarrow> system_first (h @ new)"
  by (cases h) (auto simp: system_first_def split: message.splits)

lemma system_first_initial: "system_first initial_history"
  by (simp add: system_first_def initial_history_def)

lemma upload_section_system_first:
  assumes "system_first (history s)"
  shows "system_first (history (fst (upload_section lower k post s f)))"
  using assms
  by (auto simp add: upload_section_def Let_def system_first_def context_msg_def
      split: prod.splits bool.splits option.splits)

lemma chat_turn_system_first:
  assumes "system_first (history s)"
  shows "system_first (history (fst (chat_turn lower client s prompt)))"
proof (cases client)
  case (Inl d)
  then show ?thesis
    using assms by (simp add: chat_turn_no_client_session)
next
  case (Inr invoke)
  show ?thesis
  proof (cases "invoke (limited_history (history s @ [HumanMessage prompt]))")
    case (Inl d)
    then show ?thesis
      using assms Inr by (simp add: chat_turn_invoke_raises)
  next
    case r: (Inr content)
    then show ?thesis
      using Inr system_first_append [OF assms, of "[HumanMessage prompt, AIMessage content]"]
      by (simp add: chat_turn_def Let_def)
  qed
qed

lemma script_run_system_first:
  assumes "system_first (history s)"
  shows "system_first (history (fst (script_run lower k post client s uploaded chat_input)))"
proof (cases uploaded)
  case None
  then show ?thesis using assms by (simp add: script_run_def)
next
  case (Some f)
  obtain s1 ev1 stopped where u: "upload_section lower k post s f = (s1, ev1, stopped)"
    by (cases "upload_section lower k post s f")
  with upload_section_system_first [OF assms, of lower k post f]
  have 1: "system_first (history s1)" by simp
  have 2: "system_first (history (fst (chat_section lower client s1 chat_input)))"
    using 1 chat_turn_system_first [OF 1, of lower client]
    by (auto simp add: chat_section_def Let_def split: option.splits prod.splits)
      (metis fst_conv)
  show ?thesis
    using 1 2 by (auto simp add: script_run_def Some u split: prod.splits)
qed

text \<open>What the alternative attempt shows for a status other than 200.\<close>

lemma alternative_status_shown:
  assumes "post (alternative_request k f) = Inr r" and "status_code r \<noteq> 200"
  shows "transcribe_audio_alternative k post f =
      (None, [HttpPost (alternative_request k f),
              StError (ApiError (status_code r) (body_text r))]) \<and>
     (fst (transcribe_audio_primary k post f) = None \<longrightarrow>
        acquire k post f =
          (None, [Progress 25, StatusText SendingFile, HttpPost (primary_request k f),
                  Progress 50, StatusText PrimaryFailed, HttpPost (alternative_request k f),
                  StError (ApiError (status_code r) (body_text r)),
                  Progress 75, Progress 100]))"
proof (intro conjI impI)
  show a: "transcribe_audio_alternative k post f =
      (None, [HttpPost (alternative_request k f),
              StError (ApiError (status_code r) (body_text r))])"
    using assms by (simp add: transcribe_audio_alternative_def)
  assume "fst (transcribe_audio_primary k post f) = None"
  with primary_events [of k post f]
  have "transcribe_audio_primary k post f = (None, [HttpPost (primary_request k f)])"
    by (simp add: prod_eq_iff)
  from acquire_after_None [OF this] show "acquire k post f =
          (None, [Progress 25, StatusText SendingFile, HttpPost (primary_request k f),
                  Progress 50, StatusText PrimaryFailed, HttpPost (alternative_request k f),
                  StError (ApiError (status_code r) (body_text r)),
                  Progress 75, Progress 100])"
    by (simp add: a)
qed

text \<open>
  What \<open>validate_audio_file\<close> decides for an arbitrary file, and what follows a rejection.
\<close>

lemma validate_audio_file_rule:
  "(fst (validate_audio_file lower (Some f)) \<longleftrightarrow>
      length (getvalue f) \<le> 25 * 1024 * 1024 \<and>
      (ftype f \<in> Some ` set allowed_types \<or>
       lower (splitext_ext (name f)) \<in> set allowed_extensions)) \<and>
   (\<not> fst (validate_audio_file lower (Some f)) \<longrightarrow>
      script_run lower k post client s (Some f) chat_input =
        (s, [StError (Validation (snd (validate_audio_file lower (Some f))))]) \<and>
      http_posts (snd (script_run lower k post client s (Some f) chat_input)) = [] \<and>
      llm_calls (snd (script_run lower k post client s (Some f) chat_input)) = [])"
proof (intro conjI impI)
  have t: "type_not_allowed f \<longleftrightarrow> ftype f \<notin> Some ` set allowed_types"
    by (cases "ftype f") (auto simp: type_not_allowed_def)
  show "fst (validate_audio_file lower (Some f)) \<longleftrightarrow>
      length (getvalue f) \<le> 25 * 1024 * 1024 \<and>
      (ftype f \<in> Some ` set allowed_types \<or>
       lower (splitext_ext (name f)) \<in> set allowed_extensions)"
    using file_size_le [of f]
    by (auto simp: validate_audio_file_def t file_extension_def)
  assume r: "\<not> fst (validate_audio_file lower (Some f))"
  then obtain m where m: "validate_audio_file lower (Some f) = (False, m)"
    by (cases "validate_audio_file lower (Some f)") auto
  then have u: "upload_section lower k post s f = (s, [StError (Validation m)], True)"
    by (simp add: upload_section_def)
  show a: "script_run lower k post client s (Some f) chat_input =
        (s, [StError (Validation (snd (validate_audio_file lower (Some f))))])"
    by (simp add: script_run_def u m)
  show "http_posts (snd (script_run lower k post client s (Some f) chat_input)) = []"
    by (simp add: a)
  show "llm_calls (snd (script_run lower k post client s (Some f) chat_input)) = []"
    by (simp add: a)
qed

text \<open>
  What the command-line script does for a status other than 200: it prints the status
  and the body, and \<open>raise_for_status\<close> ends it for the statuses 400 to 599.
\<close>

lemma cli_status_shown:
  assumes "post (cli_request k m a) = Inr r" and "status_code r \<noteq> 200"
  shows "cli_transcribe k post m a =
     (if 400 \<le> status_code r \<and> status_code r < 600
      then ([DeepgramError (status_code r) (body_text r)], Some (HTTPError (status_code r)))
      else (case json_result r of
              Inl e \<Rightarrow> ([DeepgramError (status_code r) (body_text r)], Some e)
            | Inr result \<Rightarrow>
                (DeepgramError (status_code r) (body_text r) # fst (cli_display result),
                 snd (cli_display result))))"
  using assms
  by (simp add: cli_transcribe_def raise_for_status_def Let_def split: sum.splits prod.splits)







section \<open>The claims\<close>

text \<open>
  C1. Whenever the primary attempt gets a 200 response whose body carries a transcript
  that is not empty after trimming, the acquisition returns exactly the trimmed text and
  the only request sent is the primary one; and the request of the alternative attempt is
  sent exactly when the primary attempt returned \<open>None\<close>.
\<close>

theorem acquire_primary_first:
  "(post (primary_request k f) = Inr r \<and> status_code r = 200 \<and> json_result r = Inr j \<and>
    transcript_path j = Some t \<and> strip t \<noteq> []
    \<longrightarrow> fst (acquire k post f) = Some (strip t) \<and>
        http_posts (snd (acquire k post f)) = [primary_request k f]) \<and>
   (alternative_request k f \<in> set (http_posts (snd (acquire k post f)))
      \<longleftrightarrow> fst (transcribe_audio_primary k post f) = None)"
proof (intro conjI impI)
  assume a: "post (primary_request k f) = Inr r \<and> status_code r = 200 \<and>
    json_result r = Inr j \<and> transcript_path j = Some t \<and> strip t \<noteq> []"
  then have "fst (transcribe_audio_primary k post f) = Some (strip t)"
    using primary_result [of post k f r j t] by simp
  then have p: "transcribe_audio_primary k post f =
      (Some (strip t), [HttpPost (primary_request k f)])"
    using primary_events [of k post f] by (simp add: prod_eq_iff)
  show "fst (acquire k post f) = Some (strip t)"
    by (simp add: acquire_def p)
  show "http_posts (snd (acquire k post f)) = [primary_request k f]"
    by (simp add: acquire_def p)
next
  obtain a ev1 where p: "transcribe_audio_primary k post f = (a, ev1)"
    by (cases "transcribe_audio_primary k post f")
  with primary_events [of k post f] have ev1: "ev1 = [HttpPost (primary_request k f)]"
    by simp
  obtain b ev2 where q: "transcribe_audio_alternative k post f = (b, ev2)"
    by (cases "transcribe_audio_alternative k post f")
  with alternative_posts [of k post f] have ev2: "http_posts ev2 = [alternative_request k f]"
    by simp
  show "alternative_request k f \<in> set (http_posts (snd (acquire k post f)))
      \<longleftrightarrow> fst (transcribe_audio_primary k post f) = None"
  proof (cases a)
    case None
    then show ?thesis
      by (simp add: acquire_def p q ev1 ev2)
  next
    case (Some x)
    then show ?thesis
      using primary_request_neq_alternative [of k f k f]
      by (auto simp add: acquire_def p ev1)
  qed
qed

theorem acquire_primary_first_witness:
  "fst (acquire demo_key primary_ok_provider demo_file) = Some (ustr ''hello world'') \<and>
   http_posts (snd (acquire demo_key primary_ok_provider demo_file)) =
     [primary_request demo_key demo_file] \<and>
   alternative_request demo_key demo_file
     \<notin> set (http_posts (snd (acquire demo_key primary_ok_provider demo_file)))"
proof -
  let ?t = "ustr '' hello world ''"
  have h: "primary_ok_provider (primary_request demo_key demo_file) = Inr (ok_response ?t) \<and>
      status_code (ok_response ?t) = 200 \<and>
      json_result (ok_response ?t) = Inr (deepgram_body ?t) \<and>
      transcript_path (deepgram_body ?t) = Some ?t \<and> strip ?t \<noteq> []"
    by (simp add: primary_ok_provider_def stub_provider_def primary_request_def
        strip_hello ok_response_def) (simp add: ustr_def)
  have "fst (acquire demo_key primary_ok_provider demo_file) = Some (strip ?t) \<and>
      http_posts (snd (acquire demo_key primary_ok_provider demo_file)) =
        [primary_request demo_key demo_file]"
    using acquire_primary_first [of primary_ok_provider demo_key demo_file
        "ok_response ?t" "deepgram_body ?t" ?t] h
    by blast
  then show ?thesis
    using primary_request_neq_alternative [of demo_key demo_file demo_key demo_file]
    by (simp add: strip_hello)
qed

text \<open>
  C2. Whenever the primary attempt meets an exception, a status other than 200 or a
  malformed body, the acquisition goes on to the alternative attempt: both requests are
  sent, and the result is the alternative attempt's own result inside a fixed frame of
  progress messages. Nothing of the primary outcome is in it: two providers that both
  fail softly on the primary request and answer the alternative request alike give the
  same result.
\<close>

theorem primary_failure_silent:
  assumes "primary_soft_failure (post (primary_request k f))"
  shows "acquire k post f =
      (fst (transcribe_audio_alternative k post f),
       [Progress 25, StatusText SendingFile, HttpPost (primary_request k f),
        Progress 50, StatusText PrimaryFailed] @
       snd (transcribe_audio_alternative k post f) @ [Progress 75, Progress 100]) \<and>
     http_posts (snd (acquire k post f)) = [primary_request k f, alternative_request k f] \<and>
     (\<forall>post'. primary_soft_failure (post' (primary_request k f)) \<and>
        post' (alternative_request k f) = post (alternative_request k f)
        \<longrightarrow> acquire k post' f = acquire k post f)"
proof (intro conjI allI impI)
  show a: "acquire k post f =
      (fst (transcribe_audio_alternative k post f),
       [Progress 25, StatusText SendingFile, HttpPost (primary_request k f),
        Progress 50, StatusText PrimaryFailed] @
       snd (transcribe_audio_alternative k post f) @ [Progress 75, Progress 100])"
    using acquire_after_None [OF primary_soft_failure_None [of post k f, OF assms]] by simp
  show "http_posts (snd (acquire k post f)) = [primary_request k f, alternative_request k f]"
    by (simp add: a alternative_posts)
  fix post'
  assume b: "primary_soft_failure (post' (primary_request k f)) \<and>
        post' (alternative_request k f) = post (alternative_request k f)"
  then have "acquire k post' f =
      (fst (transcribe_audio_alternative k post' f),
       [Progress 25, StatusText SendingFile, HttpPost (primary_request k f),
        Progress 50, StatusText PrimaryFailed] @
       snd (transcribe_audio_alternative k post' f) @ [Progress 75, Progress 100])"
    using acquire_after_None [OF primary_soft_failure_None [of post' k f]] by simp
  moreover from b have "transcribe_audio_alternative k post' f = transcribe_audio_alternative k post f"
    by (intro alternative_depends) simp
  ultimately show "acquire k post' f = acquire k post f"
    by (simp only: a)
qed

theorem primary_failure_silent_witness:
  "primary_soft_failure (fallback_provider (primary_request demo_key demo_file)) \<and>
   acquire demo_key fallback_provider demo_file =
     (Some (ustr ''hello world''),
      [Progress 25, StatusText SendingFile, HttpPost (primary_request demo_key demo_file),
       Progress 50, StatusText PrimaryFailed, HttpPost (alternative_request demo_key demo_file),
       Progress 75, Progress 100])"
proof -
  have h: "primary_soft_failure (fallback_provider (primary_request demo_key demo_file))"
    by (simp add: primary_soft_failure_def fallback_provider_def)
  have "acquire demo_key fallback_provider demo_file =
      (fst (transcribe_audio_alternative demo_key fallback_provider demo_file),
       [Progress 25, StatusText SendingFile, HttpPost (primary_request demo_key demo_file),
        Progress 50, StatusText PrimaryFailed] @
       snd (transcribe_audio_alternative demo_key fallback_provider demo_file) @
       [Progress 75, Progress 100])"
    using primary_failure_silent [of fallback_provider demo_key demo_file, OF h]
    by (rule conjunct1)
  then show ?thesis
    by (simp add: h fallback_alternative)
qed

text \<open>
  C3, as claimed: for a status other than 200 on the raw-body request, the failure is
  shown with the status and the body instead of an uncaught exception. It fails on the
  command-line script: at the status 401 it prints the status and the body, and then
  \<open>raise_for_status\<close> ends it with an \<open>HTTPError\<close> that nothing catches.
\<close>

theorem cli_status_counterexample:
  "cli_transcribe demo_key failing_provider (ustr ''audio/mpeg'') (getvalue demo_file) =
     ([DeepgramError 401 (ustr ''Invalid credentials'')], Some (HTTPError 401))"
proof -
  have "failing_provider (cli_request demo_key (ustr ''audio/mpeg'') (getvalue demo_file)) =
      Inr (error_response 401 (ustr ''Invalid credentials''))"
    by (simp add: failing_provider_def stub_provider_def cli_request_def)
  then show ?thesis
    by (simp add: cli_status_raises)
qed

text \<open>
  C3, amended: in the application, the alternative attempt that receives a status other
  than 200 returns \<open>None\<close> after one \<open>st.error\<close> whose message carries that status and the
  text of the response as received, and raises nothing; after a primary attempt that
  returned \<open>None\<close> this is the whole outcome of the acquisition. The command-line script
  prints the same status and text first; for a status from 400 to 599 it then ends with
  the \<open>HTTPError\<close> of \<open>raise_for_status\<close>, and for any other status it goes on to read the
  body.
\<close>

theorem status_failure_reported:
  "(post (alternative_request k f) = Inr r \<and> status_code r \<noteq> 200 \<longrightarrow>
      transcribe_audio_alternative k post f =
        (None, [HttpPost (alternative_request k f),
                StError (ApiError (status_code r) (body_text r))]) \<and>
      (fst (transcribe_audio_primary k post f) = None \<longrightarrow>
         acquire k post f =
           (None, [Progress 25, StatusText SendingFile, HttpPost (primary_request k f),
                   Progress 50, StatusText PrimaryFailed, HttpPost (alternative_request k f),
                   StError (ApiError (status_code r) (body_text r)),
                   Progress 75, Progress 100]))) \<and>
   (post (cli_request k m a) = Inr r \<and> status_code r \<noteq> 200 \<longrightarrow>
      cli_transcribe k post m a =
        (if 400 \<le> status_code r \<and> status_code r < 600
         then ([DeepgramError (status_code r) (body_text r)], Some (HTTPError (status_code r)))
         else (case json_result r of
                 Inl e \<Rightarrow> ([DeepgramError (status_code r) (body_text r)], Some e)
               | Inr result \<Rightarrow>
                   (DeepgramError (status_code r) (body_text r) # fst (cli_display result),
                    snd (cli_display result)))))"
proof (intro conjI impI)
  assume a: "post (alternative_request k f) = Inr r \<and> status_code r \<noteq> 200"
  then have 1: "post (alternative_request k f) = Inr r" and 2: "status_code r \<noteq> 200"
    by simp_all
  note s = alternative_status_shown [of post k f r, OF 1 2]
  from s show "transcribe_audio_alternative k post f =
        (None, [HttpPost (alternative_request k f),
                StError (ApiError (status_code r) (body_text r))])"
    by (rule conjunct1)
  assume "fst (transcribe_audio_primary k post f) = None"
  with s show "acquire k post f =
           (None, [Progress 25, StatusText SendingFile, HttpPost (primary_request k f),
                   Progress 50, StatusText PrimaryFailed, HttpPost (alternative_request k f),
                   StError (ApiError (status_code r) (body_text r)),
                   Progress 75, Progress 100])"
    by (simp only: simp_thms)
next
  assume "post (cli_request k m a) = Inr r \<and> status_code r \<noteq> 200"
  then have 1: "post (cli_request k m a) = Inr r" and 2: "status_code r \<noteq> 200"
    by simp_all
  show "cli_transcribe k post m a =
        (if 400 \<le> status_code r \<and> status_code r < 600
         then ([DeepgramError (status_code r) (body_text r)], Some (HTTPError (status_code r)))
         else (case json_result r of
                 Inl e \<Rightarrow> ([DeepgramError (status_code r) (body_text r)], Some e)
               | Inr result \<Rightarrow>
                   (DeepgramError (status_code r) (body_text r) # fst (cli_display result),
                    snd (cli_display result))))"
    by (rule cli_status_shown [of post k m a r, OF 1 2])
qed

theorem status_failure_reported_witness:
  "acquire demo_key failing_provider demo_file =
     (None, [Progress 25, StatusText SendingFile, HttpPost (primary_request demo_key demo_file),
             Progress 50, StatusText PrimaryFailed,
             HttpPost (alternative_request demo_key demo_file),
             StError (ApiError 401 (ustr ''Invalid credentials'')),
             Progress 75, Progress 100]) \<and>
   cli_transcribe demo_key failing_provider (ustr ''audio/wav'') [82, 73, 70, 70] =
     ([DeepgramError 401 (ustr ''Invalid credentials'')], Some (HTTPError 401))"
proof -
  let ?r = "error_response 401 (ustr ''Invalid credentials'')"
  note t = status_failure_reported [of failing_provider demo_key demo_file ?r
      "ustr ''audio/wav''" "[82, 73, 70, 70]"]
  have 1: "failing_provider (alternative_request demo_key demo_file) = Inr ?r \<and>
      status_code ?r \<noteq> 200"
    by (simp add: failing_provider_def)
  have 2: "fst (transcribe_audio_primary demo_key failing_provider demo_file) = None"
    by (simp add: transcribe_audio_primary_def failing_provider_def)
  have 3: "failing_provider (cli_request demo_key (ustr ''audio/wav'') [82, 73, 70, 70]) = Inr ?r \<and>
      status_code ?r \<noteq> 200"
    by (simp add: failing_provider_def stub_provider_def cli_request_def)
  from t [THEN conjunct1, THEN mp, OF 1, THEN conjunct2, THEN mp, OF 2]
  have "acquire demo_key failing_provider demo_file =
     (None, [Progress 25, StatusText SendingFile, HttpPost (primary_request demo_key demo_file),
             Progress 50, StatusText PrimaryFailed,
             HttpPost (alternative_request demo_key demo_file),
             StError (ApiError 401 (ustr ''Invalid credentials'')),
             Progress 75, Progress 100])"
    by simp
  moreover from t [THEN conjunct2, THEN mp, OF 3]
  have "cli_transcribe demo_key failing_provider (ustr ''audio/wav'') [82, 73, 70, 70] =
     ([DeepgramError 401 (ustr ''Invalid credentials'')], Some (HTTPError 401))"
    by simp
  ultimately show ?thesis by simp
qed

text \<open>
  C4, as claimed: when both attempts yield empty trimmed text, the overall result is the
  "no speech" condition and is not reported as a failure. It fails on the code: the
  alternative attempt shows its warning and returns \<open>None\<close>, as it does for a failure, and
  the upload section then reports "Transcription failed with both methods." and shows
  the error "Unable to transcribe the audio file.".
\<close>

theorem both_empty_counterexample:
  "fst (transcribe_audio_primary demo_key silent_provider demo_file) = None \<and>
   transcribe_audio_alternative demo_key silent_provider demo_file =
     (None, [HttpPost (alternative_request demo_key demo_file), StWarning TranscriptionEmpty]) \<and>
   StatusText FailedBothMethods
     \<in> set (fst (snd (upload_section ascii_lower demo_key silent_provider initial_session demo_file))) \<and>
   StError UnableToTranscribe
     \<in> set (fst (snd (upload_section ascii_lower demo_key silent_provider initial_session demo_file)))"
  by (simp add: silent_primary silent_alternative upload_section_def validate_demo_file
      acquire_def initial_session_def transcription_failed_def)

text \<open>
  C4, amended: when both attempts yield empty trimmed text, the alternative attempt shows
  the warning that the transcription is empty (no error message of its own) and returns
  \<open>None\<close>; the acquisition returns \<open>None\<close>, and the upload section keeps the session as it
  was and reports the outcome as it reports a failure.
\<close>

theorem both_empty_outcome:
  assumes "post (primary_request k f) = Inr ra" and "status_code ra = 200"
    and "json_result ra = Inr ja" and "transcript_path ja = Some ta" and "strip ta = []"
    and "post (alternative_request k f) = Inr rb" and "status_code rb = 200"
    and "json_result rb = Inr jb" and "transcript_path jb = Some tb" and "strip tb = []"
    and "validate_audio_file lower (Some f) = (True, m)"
    and "transcript s = None \<or> last_uploaded_file s \<noteq> Some (name f)"
  shows "transcribe_audio_alternative k post f =
           (None, [HttpPost (alternative_request k f), StWarning TranscriptionEmpty]) \<and>
         acquire k post f =
           (None, [Progress 25, StatusText SendingFile, HttpPost (primary_request k f),
                   Progress 50, StatusText PrimaryFailed, HttpPost (alternative_request k f),
                   StWarning TranscriptionEmpty, Progress 75, Progress 100]) \<and>
         upload_section lower k post s f =
           (s, [StSuccess (Validation m), StInfo StartingTranscription, Progress 0,
                Progress 25, StatusText SendingFile, HttpPost (primary_request k f),
                Progress 50, StatusText PrimaryFailed, HttpPost (alternative_request k f),
                StWarning TranscriptionEmpty, Progress 75, Progress 100,
                StatusText FailedBothMethods, StError UnableToTranscribe,
                StWrite CheckClearSpeech, StWrite CheckAudioQuality,
                StWrite CheckNotCorrupted, StWrite CheckApiKey,
                ProgressEmpty, StatusEmpty], False)"
proof -
  have p: "transcribe_audio_primary k post f = (None, [HttpPost (primary_request k f)])"
    using primary_result_events [of post k f ra ja ta] assms(1-5) by simp
  have q: "transcribe_audio_alternative k post f =
      (None, [HttpPost (alternative_request k f), StWarning TranscriptionEmpty])"
    using alternative_result [of post k f rb jb tb] assms(6-10) by simp
  have a: "acquire k post f =
      (None, [Progress 25, StatusText SendingFile, HttpPost (primary_request k f),
              Progress 50, StatusText PrimaryFailed, HttpPost (alternative_request k f),
              StWarning TranscriptionEmpty, Progress 75, Progress 100])"
    using acquire_after_None [OF p] by (simp add: q)
  have u: "upload_section lower k post s f =
           (s, [StSuccess (Validation m), StInfo StartingTranscription, Progress 0,
                Progress 25, StatusText SendingFile, HttpPost (primary_request k f),
                Progress 50, StatusText PrimaryFailed, HttpPost (alternative_request k f),
                StWarning TranscriptionEmpty, Progress 75, Progress 100,
                StatusText FailedBothMethods, StError UnableToTranscribe,
                StWrite CheckClearSpeech, StWrite CheckAudioQuality,
                StWrite CheckNotCorrupted, StWrite CheckApiKey,
                ProgressEmpty, StatusEmpty], False)"
    using assms(12)
    by (auto simp add: upload_section_def assms(11) a transcription_failed_def)
  from q a u show ?thesis by simp
qed

theorem both_empty_outcome_witness:
  "upload_section ascii_lower demo_key silent_provider initial_session demo_file =
     (initial_session,
      [StSuccess (Validation (ValidFile (ustr ''talk.mp3'') (1 / 262144))),
       StInfo StartingTranscription, Progress 0,
       Progress 25, StatusText SendingFile, HttpPost (primary_request demo_key demo_file),
       Progress 50, StatusText PrimaryFailed, HttpPost (alternative_request demo_key demo_file),
       StWarning TranscriptionEmpty, Progress 75, Progress 100,
       StatusText FailedBothMethods, StError UnableToTranscribe,
       StWrite CheckClearSpeech, StWrite CheckAudioQuality,
       StWrite CheckNotCorrupted, StWrite CheckApiKey,
       ProgressEmpty, StatusEmpty], False)"
proof -
  have 1: "silent_provider (primary_request demo_key demo_file) = Inr (ok_response [])"
    and 2: "silent_provider (alternative_request demo_key demo_file) = Inr (ok_response (ustr ''   ''))"
    by (simp_all add: silent_provider_def)
  have 3: "transcript initial_session = None \<or>
      last_uploaded_file initial_session \<noteq> Some (name demo_file)"
    by (simp add: initial_session_def)
  from both_empty_outcome [OF 1 ok_response_sel(1) ok_response_sel(2)
      transcript_path_deepgram_body strip_Nil 2 ok_response_sel(1) ok_response_sel(2)
      transcript_path_deepgram_body strip_spaces validate_demo_file 3]
  show ?thesis by (rule conjunct2 [THEN conjunct2])
qed

text \<open>
  C5, as claimed: the alternative request carries the same options as the primary one.
  It fails on the code: the primary request sends \<open>diarize=false\<close>, the alternative request
  has no \<open>diarize\<close> parameter.
\<close>

theorem alternative_request_counterexample:
  "map_of (params (primary_request demo_key demo_file)) (ustr ''diarize'') = Some (ustr ''false'') \<and>
   map_of (params (alternative_request demo_key demo_file)) (ustr ''diarize'') = None \<and>
   params (alternative_request demo_key demo_file) \<noteq> params (primary_request demo_key demo_file)"
  by (simp add: primary_request_def alternative_request_def)

text \<open>
  C5, amended: the alternative request carries the parameters of the primary request
  without \<open>diarize\<close> (language detection, punctuation and formatting on, the same model),
  the same URL and the same timeout of 120 seconds; its body is the raw audio with a
  \<open>Content-Type\<close> header where the primary request has a multipart file.
\<close>

theorem alternative_request_options:
  "params (alternative_request k f) =
     filter (\<lambda>(name, v). name \<noteq> ustr ''diarize'') (params (primary_request k f)) \<and>
   map_of (params (alternative_request k f)) (ustr ''detect_language'') = Some (ustr ''true'') \<and>
   map_of (params (alternative_request k f)) (ustr ''punctuate'') = Some (ustr ''true'') \<and>
   map_of (params (alternative_request k f)) (ustr ''smart_format'') = Some (ustr ''true'') \<and>
   map_of (params (alternative_request k f)) (ustr ''diarize'') = None \<and>
   map_of (params (primary_request k f)) (ustr ''diarize'') = Some (ustr ''false'') \<and>
   timeout (alternative_request k f) = Some 120 \<and>
   timeout (primary_request k f) = Some 120 \<and>
   url (alternative_request k f) = url (primary_request k f) \<and>
   body (primary_request k f) =
     Multipart (ustr ''audio'') (name f) (getvalue f) (type_or_default f) \<and>
   body (alternative_request k f) = Raw (getvalue f) \<and>
   headers (alternative_request k f) =
     headers (primary_request k f) @ [(ustr ''Content-Type'', type_or_default f)]"
  by (simp add: primary_request_def alternative_request_def)

text \<open>
  C6. A transcript made of whitespace only is treated as the empty transcript is: the
  primary attempt returns \<open>None\<close> for both, and the alternative attempt shows the
  empty-transcription warning and returns \<open>None\<close> for both.
\<close>

theorem whitespace_like_empty:
  assumes "\<forall>c \<in> set t. py_isspace c"
    and "status_code r = 200" and "json_result r = Inr j" and "transcript_path j = Some t"
    and "status_code r0 = 200" and "json_result r0 = Inr j0" and "transcript_path j0 = Some []"
  shows "transcribe_audio_primary k (\<lambda>rq. Inr r) f = transcribe_audio_primary k (\<lambda>rq. Inr r0) f \<and>
         fst (transcribe_audio_primary k (\<lambda>rq. Inr r) f) = None \<and>
         transcribe_audio_alternative k (\<lambda>rq. Inr r) f =
           transcribe_audio_alternative k (\<lambda>rq. Inr r0) f \<and>
         transcribe_audio_alternative k (\<lambda>rq. Inr r) f =
           (None, [HttpPost (alternative_request k f), StWarning TranscriptionEmpty])"
proof -
  from assms(1) have s: "strip t = []"
    by (simp add: strip_whitespace)
  have "transcribe_audio_primary k (\<lambda>rq. Inr r) f = (None, [HttpPost (primary_request k f)])"
    using primary_result_events [of "\<lambda>rq. Inr r" k f r j t] assms s by simp
  moreover
  have "transcribe_audio_primary k (\<lambda>rq. Inr r0) f = (None, [HttpPost (primary_request k f)])"
    using primary_result_events [of "\<lambda>rq. Inr r0" k f r0 j0 "[]"] assms by simp
  moreover
  have "transcribe_audio_alternative k (\<lambda>rq. Inr r) f =
      (None, [HttpPost (alternative_request k f), StWarning TranscriptionEmpty])"
    using alternative_result [of "\<lambda>rq. Inr r" k f r j t] assms s by simp
  moreover
  have "transcribe_audio_alternative k (\<lambda>rq. Inr r0) f =
      (None, [HttpPost (alternative_request k f), StWarning TranscriptionEmpty])"
    using alternative_result [of "\<lambda>rq. Inr r0" k f r0 j0 "[]"] assms by simp
  ultimately show ?thesis by simp
qed

theorem whitespace_like_empty_witness:
  "list_all py_isspace (ustr ''   '') \<and>
   transcribe_audio_primary demo_key (\<lambda>rq. Inr (ok_response (ustr ''   ''))) demo_file =
     transcribe_audio_primary demo_key (\<lambda>rq. Inr (ok_response [])) demo_file \<and>
   transcribe_audio_alternative demo_key (\<lambda>rq. Inr (ok_response (ustr ''   ''))) demo_file =
     (None, [HttpPost (alternative_request demo_key demo_file), StWarning TranscriptionEmpty])"
proof -
  have h: "\<forall>c \<in> set (ustr ''   ''). py_isspace c"
    by (simp add: ustr_def py_isspace_def)
  let ?r = "ok_response (ustr ''   '')" and ?e = "ok_response []"
  have "transcribe_audio_primary demo_key (\<lambda>rq. Inr ?r) demo_file =
          transcribe_audio_primary demo_key (\<lambda>rq. Inr ?e) demo_file \<and>
        fst (transcribe_audio_primary demo_key (\<lambda>rq. Inr ?r) demo_file) = None \<and>
        transcribe_audio_alternative demo_key (\<lambda>rq. Inr ?r) demo_file =
          transcribe_audio_alternative demo_key (\<lambda>rq. Inr ?e) demo_file \<and>
        transcribe_audio_alternative demo_key (\<lambda>rq. Inr ?r) demo_file =
          (None, [HttpPost (alternative_request demo_key demo_file), StWarning TranscriptionEmpty])"
  proof (rule whitespace_like_empty [where t = "ustr ''   ''"
        and j = "deepgram_body (ustr ''   '')" and j0 = "deepgram_body []", OF h])
    show "status_code ?r = 200" and "status_code ?e = 200"
      by (rule ok_response_sel)+
    show "json_result ?r = Inr (deepgram_body (ustr ''   ''))"
      and "json_result ?e = Inr (deepgram_body [])"
      by (rule ok_response_sel)+
    show "transcript_path (deepgram_body (ustr ''   '')) = Some (ustr ''   '')"
      and "transcript_path (deepgram_body []) = Some []"
      by (rule transcript_path_deepgram_body)+
  qed
  moreover from h have "list_all py_isspace (ustr ''   '')"
    by (simp only: list_all_iff)
  ultimately show ?thesis
    by blast
qed




text \<open>
  C8. In a chat turn the history at the time of the call is the stored history with the
  new user message. When it has more than five messages (more than the system message
  and four others), the language model is called once, with the first message of the
  history, which is the system message (\<open>script_run_system_first\<close>), followed by the last
  four messages; otherwise it is called with the whole history.
\<close>

theorem chat_history_cap:
  "(length (history s @ [HumanMessage prompt]) > 5 \<longrightarrow>
      (\<exists>older recent.
         history s @ [HumanMessage prompt] = hd (history s) # older @ recent \<and>
         length recent = 4 \<and>
         llm_calls (snd (chat_turn lower (Inr invoke) s prompt)) = [hd (history s) # recent])) \<and>
   (length (history s @ [HumanMessage prompt]) \<le> 5 \<longrightarrow>
      llm_calls (snd (chat_turn lower (Inr invoke) s prompt)) =
        [history s @ [HumanMessage prompt]])"
proof (intro conjI impI)
  assume a: "length (history s @ [HumanMessage prompt]) > 5"
  then have "history s \<noteq> []" by auto
  then have "hd (history s @ [HumanMessage prompt]) = hd (history s)" by simp
  with limited_history_long [OF a]
  show "\<exists>older recent.
         history s @ [HumanMessage prompt] = hd (history s) # older @ recent \<and>
         length recent = 4 \<and>
         llm_calls (snd (chat_turn lower (Inr invoke) s prompt)) = [hd (history s) # recent]"
    by (simp add: chat_turn_calls)
next
  assume "length (history s @ [HumanMessage prompt]) \<le> 5"
  then show "llm_calls (snd (chat_turn lower (Inr invoke) s prompt)) =
        [history s @ [HumanMessage prompt]]"
    by (simp add: chat_turn_calls limited_history_def)
qed

theorem chat_history_cap_witness:
  "llm_calls (snd (chat_turn ascii_lower echo_client long_session (ustr ''q4''))) =
     [context_msg (ustr ''hello world'') # [AIMessage (ustr ''a2''),
       HumanMessage (ustr ''q3''), AIMessage (ustr ''a3''), HumanMessage (ustr ''q4'')]] \<and>
   llm_calls (snd (chat_turn ascii_lower echo_client demo_session (ustr ''q1''))) =
     [context_msg (ustr ''hello world'') # [HumanMessage (ustr ''q1'')]]"
proof -
  let ?h = "history long_session @ [HumanMessage (ustr ''q4'')]"
  let ?calls = "llm_calls (snd (chat_turn ascii_lower (Inr (\<lambda>h. Inr (ustr ''ok'')))
      long_session (ustr ''q4'')))"
  have "\<exists>older recent. ?h = hd (history long_session) # older @ recent \<and>
      length recent = 4 \<and> ?calls = [hd (history long_session) # recent]"
    by (rule chat_history_cap [THEN conjunct1, THEN mp]) (simp add: long_session_def)
  then obtain older recent where
    e: "?h = hd (history long_session) # older @ recent" and n: "length recent = 4"
    and c: "?calls = [hd (history long_session) # recent]"
    by (elim exE conjE)
  from e have "length ?h = length (hd (history long_session) # older @ recent)"
    by (rule arg_cong)
  with n have "length older = 3"
    by (simp add: long_session_def)
  with e have "recent = drop 4 ?h"
    by simp
  then have "recent = [AIMessage (ustr ''a2''), HumanMessage (ustr ''q3''),
      AIMessage (ustr ''a3''), HumanMessage (ustr ''q4'')]"
    by (simp add: long_session_def)
  with c have 1: "?calls = [context_msg (ustr ''hello world'') # [AIMessage (ustr ''a2''),
       HumanMessage (ustr ''q3''), AIMessage (ustr ''a3''), HumanMessage (ustr ''q4'')]]"
    by (simp add: long_session_def)
  have 2: "llm_calls (snd (chat_turn ascii_lower (Inr (\<lambda>h. Inr (ustr ''ok'')))
      demo_session (ustr ''q1''))) = [history demo_session @ [HumanMessage (ustr ''q1'')]]"
    by (rule chat_history_cap [THEN conjunct2, THEN mp]) (simp add: demo_session_def)
  from 1 2 show ?thesis
    by (simp add: echo_client_def demo_session_def)
qed

text \<open>
  C9. A chat turn leaves the session exactly as it was when the constructor of the
  client or the call of the language model raises; when the call returns, the history has
  grown by the user message and the assistant message, in this order, and the one call
  was made with a history that ends with the user message.
\<close>

theorem chat_turn_atomic:
  "(client = Inl d \<or>
    (\<exists>invoke. client = Inr invoke \<and>
       invoke (limited_history (history s @ [HumanMessage prompt])) = Inl d)
    \<longrightarrow> fst (chat_turn lower client s prompt) = s) \<and>
   (client = Inr invoke \<and>
    invoke (limited_history (history s @ [HumanMessage prompt])) = Inr content
    \<longrightarrow> fst (chat_turn lower client s prompt) =
          s\<lparr> history := history s @ [HumanMessage prompt, AIMessage content] \<rparr> \<and>
        llm_calls (snd (chat_turn lower client s prompt)) =
          [limited_history (history s @ [HumanMessage prompt])] \<and>
        last (limited_history (history s @ [HumanMessage prompt])) = HumanMessage prompt)"
proof (intro conjI impI)
  assume "client = Inl d \<or>
    (\<exists>invoke. client = Inr invoke \<and>
       invoke (limited_history (history s @ [HumanMessage prompt])) = Inl d)"
  then show "fst (chat_turn lower client s prompt) = s"
  proof (elim disjE exE conjE)
    assume "client = Inl d"
    then show ?thesis
      by (simp only: chat_turn_no_client_session)
  next
    fix invoke'
    assume "client = Inr invoke'"
      and "invoke' (limited_history (history s @ [HumanMessage prompt])) = Inl d"
    then show ?thesis
      by (simp only: chat_turn_invoke_raises)
  qed
next
  assume a: "client = Inr invoke \<and>
    invoke (limited_history (history s @ [HumanMessage prompt])) = Inr content"
  then show "fst (chat_turn lower client s prompt) =
          s\<lparr> history := history s @ [HumanMessage prompt, AIMessage content] \<rparr>"
    by (simp add: chat_turn_def Let_def)
  from a show "llm_calls (snd (chat_turn lower client s prompt)) =
          [limited_history (history s @ [HumanMessage prompt])]"
    by (simp add: chat_turn_calls)
  show "last (limited_history (history s @ [HumanMessage prompt])) = HumanMessage prompt"
    by (rule last_limited_history)
qed

theorem chat_turn_atomic_witness:
  "fst (chat_turn ascii_lower quota_client long_session (ustr ''q4'')) = long_session \<and>
   history (fst (chat_turn ascii_lower echo_client demo_session (ustr ''q1''))) =
     [context_msg (ustr ''hello world''), HumanMessage (ustr ''q1''), AIMessage (ustr ''ok'')]"
proof -
  have 1: "fst (chat_turn ascii_lower quota_client long_session (ustr ''q4'')) = long_session"
    by (rule chat_turn_atomic [where d = "ustr ''429 Resource has been exhausted''",
          THEN conjunct1, THEN mp])
      (simp add: quota_client_def)
  have 2: "fst (chat_turn ascii_lower echo_client demo_session (ustr ''q1'')) =
      demo_session\<lparr> history := history demo_session @
        [HumanMessage (ustr ''q1''), AIMessage (ustr ''ok'')] \<rparr>"
    by (rule chat_turn_atomic [where invoke = "\<lambda>h. Inr (ustr ''ok'')",
          THEN conjunct2, THEN mp, THEN conjunct1])
      (simp add: echo_client_def)
  from 1 2 show ?thesis
    by (simp add: demo_session_def)
qed

text \<open>
  C10. When the session holds a transcript and the name of the uploaded file equals the
  remembered name of the last transcribed file, the upload section sends no request and
  leaves the session as it is, whatever the bytes of the file; a valid file is then
  followed by the display of the stored transcript.
\<close>

theorem same_name_reuses_transcript:
  assumes "last_uploaded_file s = Some (name f)" and "transcript s = Some t"
  shows "fst (upload_section lower k post s f) = s \<and>
         http_posts (fst (snd (upload_section lower k post s f))) = [] \<and>
         (fst (validate_audio_file lower (Some f)) \<and> t \<noteq> [] \<longrightarrow>
            script_run lower k post client s (Some f) None =
              (s, [StSuccess (Validation (snd (validate_audio_file lower (Some f)))),
                   ShowTranscript t] @ map ShowMessage (tl (history s))))"
proof (intro conjI impI)
  obtain b m where v: "validate_audio_file lower (Some f) = (b, m)"
    by (cases "validate_audio_file lower (Some f)")
  note u = upload_section_cached [OF assms, of lower k post]
  show "fst (upload_section lower k post s f) = s"
    by (cases b) (simp_all add: u v)
  show "http_posts (fst (snd (upload_section lower k post s f))) = []"
    by (cases b) (simp_all add: u v)
  assume "fst (validate_audio_file lower (Some f)) \<and> t \<noteq> []"
  then show "script_run lower k post client s (Some f) None =
              (s, [StSuccess (Validation (snd (validate_audio_file lower (Some f)))),
                   ShowTranscript t] @ map ShowMessage (tl (history s)))"
    by (simp add: script_run_def u v chat_section_def assms(2))
qed

theorem same_name_reuses_transcript_witness:
  "fst (upload_section ascii_lower demo_key primary_ok_provider initial_session demo_file) =
     demo_session \<and>
   name other_file = name demo_file \<and> getvalue other_file \<noteq> getvalue demo_file \<and>
   script_run ascii_lower demo_key failing_provider echo_client demo_session
       (Some other_file) None =
     (demo_session,
      [StSuccess (Validation (ValidFile (ustr ''talk.mp3'') (3 / 524288))),
       ShowTranscript (ustr ''hello world'')])"
proof -
  have 1: "last_uploaded_file demo_session = Some (name other_file)"
    and 2: "transcript demo_session = Some (ustr ''hello world'')"
    by (simp_all add: demo_session_def other_file_def)
  have v: "validate_audio_file ascii_lower (Some other_file) =
      (True, ValidFile (ustr ''talk.mp3'') (3 / 524288))"
    by (simp add: validate_audio_file_def other_file_def file_size_mb_def type_not_allowed_def
      allowed_types_def)
  have n: "ustr ''hello world'' \<noteq> []"
    by (simp add: ustr_def)
  have "script_run ascii_lower demo_key failing_provider echo_client demo_session
       (Some other_file) None =
     (demo_session,
      [StSuccess (Validation (snd (validate_audio_file ascii_lower (Some other_file)))),
       ShowTranscript (ustr ''hello world'')] @ map ShowMessage (tl (history demo_session)))"
    by (rule same_name_reuses_transcript [OF 1 2, THEN conjunct2, THEN conjunct2, THEN mp])
      (simp add: v n)
  then show ?thesis
    by (simp add: first_upload v) (simp add: demo_session_def other_file_def demo_file_def)
qed

end
